theory Spec2Isabelle
  imports Complex_Main "HOL-Library.Char_ord" "HOL-Library.List_Lexorder"
    "HOL-Library.Product_Lexorder" "HOL-Library.Multiset"
begin

section \<open>The incident table\<close>

text \<open>
  The dashboard script \<^verbatim>\<open>apps/dashboard/app.py\<close> works on one pandas table. A record of
  the table is an incident; its fields are the eight columns that \<^verbatim>\<open>load_data\<close> asks
  \<^verbatim>\<open>read_csv\<close> for (the list \<^verbatim>\<open>cols\<close>), typed as pandas infers them from the yearly
  exports: a cell that pandas reads as missing (NaN) is \<open>None\<close>. District, Latitude,
  Longitude and the two free-text columns can be missing; Date, Primary Type and Arrest
  are filled in every record (the archives are split by the year of Date, the type
  list is sorted as text, Arrest is compared with booleans).
  The field Date is a parameter: text as read from the file, nanoseconds since
  1970-01-01 00:00 (the value of a pandas Timestamp) once parsed.
\<close>

record 'd incident =
  Date :: 'd
  Primary_Type :: string
  Description :: "string option"
  Arrest :: bool
  District :: "int option"
  Latitude :: "real option"
  Longitude :: "real option"
  Location_Description :: "string option"

text \<open>The loaded table has three more columns (lines 78-80).\<close>

record row = "int incident" +
  Month_Num :: int
  Hour :: int
  DayOfWeek :: string

text \<open>A table: the column labels in order, and the records.\<close>

record 'r dataframe =
  columns :: "string list"
  rows :: "'r list"

text \<open>\<^verbatim>\<open>len(df)\<close> and \<^verbatim>\<open>df.empty\<close> (true when either axis has length 0).\<close>

definition len :: "'r dataframe \<Rightarrow> nat" where
  "len df = length (rows df)"

definition df_empty :: "'r dataframe \<Rightarrow> bool" where
  "df_empty df \<longleftrightarrow> rows df = [] \<or> columns df = []"

text \<open>Exceptions of the script, as values.\<close>

datatype exn = NameError string | KeyError | IndexError | ValueError | ZipError | ParserError

section \<open>Text\<close>

definition startswith :: "string \<Rightarrow> string \<Rightarrow> bool" where
  "startswith s p \<longleftrightarrow> take (length p) s = p"

definition endswith :: "string \<Rightarrow> string \<Rightarrow> bool" where
  "endswith s p \<longleftrightarrow> length p \<le> length s \<and> drop (length s - length p) s = p"

definition digit_chr :: "nat \<Rightarrow> char" where
  "digit_chr d = ''0123456789'' ! d"

function str_nat :: "nat \<Rightarrow> string" where
  "str_nat n = (if n < 10 then [digit_chr n] else str_nat (n div 10) @ [digit_chr (n mod 10)])"
  by pat_completeness auto
termination
  by (relation "measure id") auto

declare str_nat.simps [simp del]

text \<open>\<^verbatim>\<open>str(year)\<close>, which the f-strings of lines 48-49 apply to the year.\<close>

definition str_int :: "int \<Rightarrow> string" where
  "str_int i = (if i < 0 then ''-'' @ str_nat (nat (- i)) else str_nat (nat i))"

text \<open>\<^verbatim>\<open>os.path.join\<close> of two components, on a POSIX system.\<close>

definition path_join :: "string \<Rightarrow> string \<Rightarrow> string" where
  "path_join a b =
     (if startswith b ''/'' then b
      else if a = [] \<or> endswith a ''/'' then a @ b
      else a @ ''/'' @ b)"

text \<open>Truth value of a variable that holds \<^verbatim>\<open>None\<close> or a string.\<close>

fun truthy :: "string option \<Rightarrow> bool" where
  "truthy None = False"
| "truthy (Some s) = (s \<noteq> [])"

section \<open>Files and archives\<close>

text \<open>
  What \<^verbatim>\<open>read_csv\<close> makes of a member of an archive, before \<^verbatim>\<open>usecols\<close> is applied:
  the labels of the header line and the records, the Date still text.
\<close>

record csv_file =
  header :: "string list"
  records :: "string incident list"

text \<open>
  A zip archive: the names of its entries in directory order (\<^verbatim>\<open>namelist()\<close>), and
  for a name what pandas parses from the entry that \<^verbatim>\<open>z.open(name)\<close> opens (\<open>None\<close>: not
  parseable as CSV). When several entries carry one name, \<^verbatim>\<open>z.open\<close> opens the last of
  them, so \<open>member\<close> is a function of the name.
\<close>

record archive =
  namelist :: "string list"
  member :: "string \<Rightarrow> csv_file option"

text \<open>
  A path names a zip archive, or something else (a directory, a file that
  \<^verbatim>\<open>ZipFile\<close> rejects), or nothing.
\<close>

datatype node = Zip archive | Other

type_synonym filesystem = "string \<Rightarrow> node option"

definition exists :: "filesystem \<Rightarrow> string \<Rightarrow> bool" where
  "exists fs p \<longleftrightarrow> fs p \<noteq> None"

text \<open>The calls that \<^verbatim>\<open>load_data\<close> makes on the file system, in order.\<close>

datatype io = Exists string | ZipOpen string | MemberOpen string

section \<open>Timestamps\<close>

text \<open>
  The accessors \<^verbatim>\<open>.dt.month\<close>, \<^verbatim>\<open>.dt.hour\<close> and \<^verbatim>\<open>.dt.day_name()\<close> on a timestamp
  without time zone. The month is read off the day number in the proleptic Gregorian
  calendar: day of the 400-year era that starts on 1 March 0000, day of the century,
  day of the 4-year cycle, day of the year that starts in March.
\<close>

definition days_of :: "int \<Rightarrow> int" where
  "days_of t = t div 86400000000000"

definition day_of_year :: "int \<Rightarrow> int" where
  "day_of_year days =
     (let d1 = (days + 719468) mod 146097;
          d2 = d1 - 36524 * min 3 (d1 div 36524);
          d3 = d2 mod 1461
      in d3 - 365 * min 3 (d3 div 365))"

definition dt_month :: "int \<Rightarrow> int" where
  "dt_month t =
     (let mp = (5 * day_of_year (days_of t) + 2) div 153
      in if mp < 10 then mp + 3 else mp - 9)"

definition dt_hour :: "int \<Rightarrow> int" where
  "dt_hour t = (t div 3600000000000) mod 24"

definition day_names :: "string list" where
  "day_names = [''Monday'', ''Tuesday'', ''Wednesday'', ''Thursday'', ''Friday'',
                ''Saturday'', ''Sunday'']"

text \<open>1 January 1970 was a Thursday; pandas counts Monday as day 0.\<close>

definition dt_weekday :: "int \<Rightarrow> nat" where
  "dt_weekday t = nat ((days_of t + 3) mod 7)"

definition dt_day_name :: "int \<Rightarrow> string" where
  "dt_day_name t = day_names ! dt_weekday t"

section \<open>Loading a year (lines 44-82)\<close>

definition possible_files :: "int \<Rightarrow> string list" where
  "possible_files year =
     [''chicago_crime_'' @ str_int year @ ''.csv.zip'',
      ''chicago_crime_'' @ str_int year @ ''.zip'']"

definition search_dirs :: "string list" where
  "search_dirs = [''.'', ''split_data_by_year'']"

text \<open>
  The inner loop of lines 57-61, for one directory: the paths it tests, and the
  value of \<^verbatim>\<open>found_path\<close> after it.
\<close>

fun probe_files :: "filesystem \<Rightarrow> string \<Rightarrow> string list \<Rightarrow> string option
    \<Rightarrow> string list \<times> string option" where
  "probe_files fs d [] found_path = ([], found_path)"
| "probe_files fs d (f # rest) found_path =
     (let test_path = path_join d f
      in if exists fs test_path then ([test_path], Some test_path)
         else (case probe_files fs d rest found_path of
                 (probed, found) \<Rightarrow> (test_path # probed, found)))"

text \<open>The outer loop of lines 56-62, with its \<^verbatim>\<open>if found_path: break\<close>.\<close>

fun probe_dirs :: "filesystem \<Rightarrow> string list \<Rightarrow> string list \<Rightarrow> string option
    \<Rightarrow> string list \<times> string option" where
  "probe_dirs fs [] files found_path = ([], found_path)"
| "probe_dirs fs (d # ds) files found_path =
     (case probe_files fs d files found_path of
        (probed, found) \<Rightarrow>
          if truthy found then (probed, found)
          else (case probe_dirs fs ds files found of
                  (probed', found') \<Rightarrow> (probed @ probed', found')))"

definition locate :: "filesystem \<Rightarrow> int \<Rightarrow> string list \<times> string option" where
  "locate fs year = probe_dirs fs search_dirs (possible_files year) None"

definition cols :: "string list" where
  "cols = [''Date'', ''Primary Type'', ''Description'', ''Arrest'', ''District'',
           ''Latitude'', ''Longitude'', ''Location Description'']"

text \<open>
  \<^verbatim>\<open>pd.read_csv(f, usecols=cols)\<close>: an error when the text is not CSV or a wanted
  column is not in the header; otherwise the wanted columns, in the order of the file.
\<close>

definition read_csv :: "csv_file option \<Rightarrow> string list \<Rightarrow> exn + string incident dataframe" where
  "read_csv f usecols =
     (case f of
        None \<Rightarrow> Inl ParserError
      | Some c \<Rightarrow>
          if set usecols \<subseteq> set (header c)
          then Inr \<lparr>columns = filter (\<lambda>h. h \<in> set usecols) (header c), rows = records c\<rparr>
          else Inl ValueError)"

text \<open>
  \<^verbatim>\<open>pd.to_datetime\<close> on a column of text. How pandas reads one date text is a parameter
  \<open>parse\<close> (\<open>None\<close>: the text is not a date, and the call raises).
\<close>

fun to_datetime :: "(string \<Rightarrow> int option) \<Rightarrow> string list \<Rightarrow> exn + int list" where
  "to_datetime parse [] = Inr []"
| "to_datetime parse (s # ss) =
     (case parse s of
        None \<Rightarrow> Inl ValueError
      | Some t \<Rightarrow> (case to_datetime parse ss of Inl e \<Rightarrow> Inl e | Inr ts \<Rightarrow> Inr (t # ts)))"

text \<open>The labels after \<^verbatim>\<open>df[name] = ...\<close>: a new label goes to the end.\<close>

definition setitem_label :: "string list \<Rightarrow> string \<Rightarrow> string list" where
  "setitem_label cs name = (if name \<in> set cs then cs else cs @ [name])"

text \<open>Lines 77-80 on one record: the parsed Date and the three derived cells.\<close>

definition derive_row :: "string incident \<Rightarrow> int \<Rightarrow> row" where
  "derive_row r t =
     \<lparr>Date = t, Primary_Type = Primary_Type r, Description = Description r,
      Arrest = Arrest r, District = District r, Latitude = Latitude r,
      Longitude = Longitude r, Location_Description = Location_Description r,
      Month_Num = dt_month t, Hour = dt_hour t, DayOfWeek = dt_day_name t\<rparr>"

definition derive :: "string incident dataframe \<Rightarrow> int list \<Rightarrow> row dataframe" where
  "derive df ts =
     \<lparr>columns = setitem_label (setitem_label (setitem_label (setitem_label (columns df)
                  ''Date'') ''Month_Num'') ''Hour'') ''DayOfWeek'',
      rows = map2 derive_row (rows df) ts\<rparr>"

text \<open>Lines 69-81: the archive is open.\<close>

definition read_archive :: "(string \<Rightarrow> int option) \<Rightarrow> archive
    \<Rightarrow> io list \<times> (exn + row dataframe option)" where
  "read_archive parse z =
     (let csv_files = filter (\<lambda>name. endswith name ''.csv'' \<and> \<not> startswith name ''__MACOSX'')
                        (namelist z)
      in case csv_files of
           [] \<Rightarrow> ([], Inr None)
         | name # _ \<Rightarrow>
             ([MemberOpen name],
              case read_csv (member z name) cols of
                Inl e \<Rightarrow> Inl e
              | Inr df \<Rightarrow>
                  (case to_datetime parse (map Date (rows df)) of
                     Inl e \<Rightarrow> Inl e
                   | Inr ts \<Rightarrow> Inr (Some (derive df ts)))))"

text \<open>
  \<^verbatim>\<open>load_data(year)\<close>: the file system calls it makes, and its result: an exception,
  \<^verbatim>\<open>None\<close>, or the table.
\<close>

definition load_data :: "(string \<Rightarrow> int option) \<Rightarrow> filesystem \<Rightarrow> int
    \<Rightarrow> io list \<times> (exn + row dataframe option)" where
  "load_data parse fs year =
     (case locate fs year of
        (probed, found_path) \<Rightarrow>
          (case found_path of
             Some p \<Rightarrow>
               if truthy found_path then
                 (case fs p of
                    Some (Zip z) \<Rightarrow>
                      (case read_archive parse z of
                         (opened, res) \<Rightarrow> (map Exists probed @ [ZipOpen p] @ opened, res))
                  | _ \<Rightarrow> (map Exists probed @ [ZipOpen p], Inl ZipError))
               else (map Exists probed, Inr None)
           | None \<Rightarrow> (map Exists probed, Inr None)))"

section \<open>Script state\<close>

text \<open>
  What outlives a statement of the script: the two keys of \<^verbatim>\<open>st.session_state\<close>
  (\<open>None\<close>: the key is absent), the memo table that \<^verbatim>\<open>@st.cache_data\<close> keeps for
  \<^verbatim>\<open>load_data\<close>, and the table objects that exist, a variable of the script holding the
  position of its object.
\<close>

record state =
  app_mode :: "string option"
  selected_year :: "int option"
  cache :: "(int \<times> row dataframe option) list"
  objects :: "row dataframe list"

definition new_table :: "state \<Rightarrow> row dataframe \<Rightarrow> state \<times> nat" where
  "new_table s t = (s\<lparr>objects := objects s @ [t]\<rparr>, length (objects s))"

text \<open>What the widgets return in one run of the script, and the random generator.\<close>

record ui =
  launch :: bool
  chosen_year :: int
  back_home :: bool
  sel_types :: "string list"
  sel_districts :: "int list"
  arrest :: string
  rnd :: "nat \<Rightarrow> nat"

text \<open>What a run shows, in order. Static markup (titles, rules, style sheets) is left out.\<close>

datatype shown = Thousands nat | Percent "real option" | Text string

datatype event =
    Error_file_missing int
  | Info_check_repository
  | Success_loaded nat
  | Success_rows nat
  | Error_not_found int
  | Caption_filters nat nat
  | Metric_card string shown
  | Caption_sampled nat
  | Map_layer "row dataframe"
  | Warning_no_map
  | Trend_chart "(string \<times> nat) list"
  | Bar_chart "(string \<times> nat) list"
  | Heatmap "((string \<times> int) \<times> nat) list"
  | Info_no_heatmap

text \<open>
  How a run ends: at the end of the script, at \<^verbatim>\<open>st.stop()\<close>, at \<^verbatim>\<open>st.rerun()\<close>, or with
  an exception that nothing catches.
\<close>

datatype outcome = Completed | Stopped | Rerun | Raised exn

type_synonym block = "event list \<times> outcome"

text \<open>One block after another: the second runs when the first came to its end.\<close>

definition seq :: "block \<Rightarrow> block \<Rightarrow> block" where
  "seq b1 b2 =
     (case b1 of
        (es, Completed) \<Rightarrow> (case b2 of (es', out) \<Rightarrow> (es @ es', out))
      | (es, out) \<Rightarrow> (es, out))"

section \<open>The cached loader (lines 44-45, 146)\<close>

text \<open>
  A call of the decorated \<^verbatim>\<open>load_data\<close>: a year in the memo table is answered from it,
  another year runs the function and stores what it returns (an exception stores
  nothing). Either way the caller gets a table object of its own.
\<close>

definition hand_out :: "row dataframe option \<Rightarrow> state \<Rightarrow> (exn + nat option) \<times> state" where
  "hand_out v s =
     (case v of
        None \<Rightarrow> (Inr None, s)
      | Some t \<Rightarrow> (case new_table s t of (s', a) \<Rightarrow> (Inr (Some a), s')))"

definition cached_load_data :: "(string \<Rightarrow> int option) \<Rightarrow> filesystem \<Rightarrow> int \<Rightarrow> state
    \<Rightarrow> (exn + nat option) \<times> state" where
  "cached_load_data parse fs year s =
     (case map_of (cache s) year of
        Some v \<Rightarrow> hand_out v s
      | None \<Rightarrow>
          (case snd (load_data parse fs year) of
             Inl e \<Rightarrow> (Inl e, s)
           | Inr v \<Rightarrow> hand_out v (s\<lparr>cache := (year, v) # cache s\<rparr>)))"

section \<open>The filter engine (lines 167-171)\<close>

text \<open>\<^verbatim>\<open>Series.isin(values)\<close>, \<^verbatim>\<open>Series == value\<close>, \<^verbatim>\<open>mask & mask\<close> and \<^verbatim>\<open>df[mask]\<close>.\<close>

definition isin :: "'a list \<Rightarrow> 'a list \<Rightarrow> bool list" where
  "isin col vals = map (\<lambda>v. v \<in> set vals) col"

definition eq_scalar :: "'a list \<Rightarrow> 'a \<Rightarrow> bool list" where
  "eq_scalar col v = map (\<lambda>x. x = v) col"

definition and_mask :: "bool list \<Rightarrow> bool list \<Rightarrow> bool list" where
  "and_mask m1 m2 = map (\<lambda>(x, y). x \<and> y) (zip m1 m2)"

definition boolean_index :: "'r dataframe \<Rightarrow> bool list \<Rightarrow> 'r dataframe" where
  "boolean_index df msk = df\<lparr>rows := map fst (filter snd (zip (rows df) msk))\<rparr>"

text \<open>Lines 167-170. The selected districts are integers, so a missing District is not among them.\<close>

definition filter_mask :: "row dataframe \<Rightarrow> string list \<Rightarrow> int list \<Rightarrow> string \<Rightarrow> bool list" where
  "filter_mask df types districts arr =
     (let msk = isin (map Primary_Type (rows df)) types;
          msk = (if districts \<noteq> []
                  then and_mask msk (isin (map District (rows df)) (map Some districts))
                  else msk);
          msk = (if arr = ''Yes''
                  then and_mask msk (eq_scalar (map Arrest (rows df)) True) else msk);
          msk = (if arr = ''No''
                  then and_mask msk (eq_scalar (map Arrest (rows df)) False) else msk)
      in msk)"

text \<open>Line 171: \<^verbatim>\<open>filtered_df = df[mask]\<close>, with the mask of lines 167-170.\<close>

definition filtered_view :: "row dataframe \<Rightarrow> string list \<Rightarrow> int list \<Rightarrow> string \<Rightarrow> row dataframe" where
  "filtered_view df types districts arr = boolean_index df (filter_mask df types districts arr)"

text \<open>
  Lines 167-171 on the objects: \<open>a\<close> is the object of \<^verbatim>\<open>df\<close>; the result is the object
  of \<^verbatim>\<open>filtered_df\<close>, which \<^verbatim>\<open>df[mask]\<close> makes.
\<close>

definition filter_engine :: "state \<Rightarrow> nat \<Rightarrow> string list \<Rightarrow> int list \<Rightarrow> string \<Rightarrow> state \<times> nat" where
  "filter_engine s a types districts arr =
     new_table s (filtered_view (objects s ! a) types districts arr)"

text \<open>The options of the radio button of line 161.\<close>

definition arrest_options :: "string list" where
  "arrest_options = [''All'', ''Yes'', ''No'']"

section \<open>Aggregations\<close>

text \<open>The cells of a column that are not missing (\<^verbatim>\<open>dropna\<close> on a series).\<close>

fun present :: "'a option list \<Rightarrow> 'a list" where
  "present [] = []"
| "present (None # xs) = present xs"
| "present (Some x # xs) = x # present xs"

text \<open>\<^verbatim>\<open>Series.unique()\<close>: the values in order of first appearance.\<close>

definition unique :: "'a list \<Rightarrow> 'a list" where
  "unique xs = rev (remdups (rev xs))"

text \<open>\<^verbatim>\<open>Series.mode()\<close> on the cells that are not missing: the most frequent values, sorted.\<close>

definition mode :: "'a::linorder list \<Rightarrow> 'a list" where
  "mode xs =
     (if xs = [] then []
      else sort (filter (\<lambda>v. count_list xs v = Max (count_list xs ` set xs)) (remdups xs)))"

text \<open>\<^verbatim>\<open>.mode()[0]\<close>: label 0 of the result, a \<^verbatim>\<open>KeyError\<close> when the result is empty.\<close>

definition mode0 :: "'a::linorder list \<Rightarrow> exn + 'a" where
  "mode0 xs = (case mode xs of [] \<Rightarrow> Inl KeyError | v # _ \<Rightarrow> Inr v)"

text \<open>\<^verbatim>\<open>groupby(keys).size()\<close>: the keys that occur, sorted, each with the number of its records.\<close>

definition groupby_size :: "'k::linorder list \<Rightarrow> ('k \<times> nat) list" where
  "groupby_size ks = map (\<lambda>k. (k, count_list ks k)) (sort (remdups ks))"

text \<open>
  \<^verbatim>\<open>Series.value_counts()\<close>: the values with their counts, the largest count first;
  equal counts are taken in order of first appearance.
\<close>

definition value_counts :: "'a list \<Rightarrow> ('a \<times> nat) list" where
  "value_counts xs = sort_key (\<lambda>p. - int (snd p)) (map (\<lambda>v. (v, count_list xs v)) (unique xs))"

text \<open>\<^verbatim>\<open>reindex(index, fill_value=0)\<close> of a table of counts.\<close>

definition reindex :: "('k \<times> nat) list \<Rightarrow> 'k list \<Rightarrow> ('k \<times> nat) list" where
  "reindex t idx = map (\<lambda>k. (k, case map_of t k of None \<Rightarrow> 0 | Some c \<Rightarrow> c)) idx"

text \<open>
  \<^verbatim>\<open>DataFrame.sample(n)\<close>: \<open>n\<close> records drawn without replacement. Each number of the
  generator picks the next record among those not drawn yet.
\<close>

fun draw :: "nat \<Rightarrow> (nat \<Rightarrow> nat) \<Rightarrow> 'a list \<Rightarrow> 'a list" where
  "draw 0 g xs = []"
| "draw (Suc n) g xs =
     (if xs = [] then []
      else (let i = g 0 mod length xs
            in xs ! i # draw n (\<lambda>k. g (Suc k)) (take i xs @ drop (Suc i) xs)))"

definition sample :: "nat \<Rightarrow> (nat \<Rightarrow> nat) \<Rightarrow> 'r dataframe \<Rightarrow> exn + 'r dataframe" where
  "sample n g df = (if len df < n then Inl ValueError else Inr (df\<lparr>rows := draw n g (rows df)\<rparr>))"

section \<open>Metric cards (lines 189-197)\<close>

definition arrest_rate :: "row dataframe \<Rightarrow> real option" where
  "arrest_rate fdf =
     (if rows fdf = [] then None
      else Some (real (length (filter Arrest (rows fdf))) / real (length (rows fdf)) * 100))"

definition top_location :: "row dataframe \<Rightarrow> exn + string" where
  "top_location fdf =
     (if \<not> df_empty fdf then mode0 (present (map Location_Description (rows fdf)))
      else Inr ''N/A'')"

definition peak_hour :: "row dataframe \<Rightarrow> exn + string" where
  "peak_hour fdf =
     (if \<not> df_empty fdf
      then (case mode0 (map Hour (rows fdf)) of Inl e \<Rightarrow> Inl e | Inr h \<Rightarrow> Inr (str_int h))
      else Inr ''N/A'')"

definition metric_cards :: "row dataframe \<Rightarrow> block" where
  "metric_cards fdf =
     seq ([Metric_card ''Total Incidents'' (Thousands (len fdf)),
           Metric_card ''Arrest Rate'' (Percent (arrest_rate fdf))], Completed)
    (case top_location fdf of
       Inl e \<Rightarrow> ([], Raised e)
     | Inr loc \<Rightarrow>
         seq ([Metric_card ''Top Location'' (Text (take 15 loc @ ''...''))], Completed)
        (case peak_hour fdf of
           Inl e \<Rightarrow> ([], Raised e)
         | Inr hour \<Rightarrow> ([Metric_card ''Peak Hour'' (Text (hour @ '':00''))], Completed)))"

section \<open>Map (lines 204-234)\<close>

text \<open>\<^verbatim>\<open>dropna(subset=['Latitude','Longitude'])\<close>.\<close>

definition dropna_coords :: "row dataframe \<Rightarrow> row dataframe" where
  "dropna_coords df =
     df\<lparr>rows := filter (\<lambda>r. Latitude r \<noteq> None \<and> Longitude r \<noteq> None) (rows df)\<rparr>"

definition map_block :: "(nat \<Rightarrow> nat) \<Rightarrow> row dataframe \<Rightarrow> block" where
  "map_block g fdf =
     (if \<not> df_empty fdf then
        (let map_data = dropna_coords fdf
         in if len map_data > 20000 then
              (case sample 20000 g map_data of
                 Inl e \<Rightarrow> ([], Raised e)
               | Inr map_data' \<Rightarrow> ([Caption_sampled (len fdf), Map_layer map_data'], Completed))
            else ([Map_layer map_data], Completed))
      else ([Warning_no_map], Completed))"

section \<open>Trend and crime types (lines 236-248)\<close>

definition month_names :: "string list" where
  "month_names = [[], ''Jan'', ''Feb'', ''Mar'', ''Apr'', ''May'', ''Jun'', ''Jul'',
                  ''Aug'', ''Sep'', ''Oct'', ''Nov'', ''Dec'']"

text \<open>\<^verbatim>\<open>calendar.month_abbr[x]\<close>: a list of 13 entries under Python's indexing.\<close>

definition month_abbr :: "int \<Rightarrow> exn + string" where
  "month_abbr x =
     (if 0 \<le> x \<and> x < 13 then Inr (month_names ! nat x)
      else if - 13 \<le> x \<and> x < 0 then Inr (month_names ! nat (x + 13))
      else Inl IndexError)"

fun label_months :: "(int \<times> nat) list \<Rightarrow> exn + (string \<times> nat) list" where
  "label_months [] = Inr []"
| "label_months ((m, c) # t) =
     (case month_abbr m of
        Inl e \<Rightarrow> Inl e
      | Inr a \<Rightarrow> (case label_months t of Inl e \<Rightarrow> Inl e | Inr t' \<Rightarrow> Inr ((a, c) # t')))"

definition trend :: "row dataframe \<Rightarrow> exn + (string \<times> nat) list" where
  "trend fdf = label_months (groupby_size (map Month_Num (rows fdf)))"

definition top :: "row dataframe \<Rightarrow> (string \<times> nat) list" where
  "top fdf = take 5 (value_counts (map Primary_Type (rows fdf)))"

definition charts_block :: "row dataframe \<Rightarrow> block" where
  "charts_block fdf =
     seq (if \<not> df_empty fdf
          then (case trend fdf of Inl e \<Rightarrow> ([], Raised e) | Inr t \<Rightarrow> ([Trend_chart t], Completed))
          else ([], Completed))
         (if \<not> df_empty fdf then ([Bar_chart (top fdf)], Completed) else ([], Completed))"

section \<open>Heatmap (lines 250-293)\<close>

definition days :: "string list" where
  "days = [''Monday'', ''Tuesday'', ''Wednesday'', ''Thursday'', ''Friday'', ''Saturday'',
           ''Sunday'']"

text \<open>\<^verbatim>\<open>pd.MultiIndex.from_product([days, range(24)])\<close>.\<close>

definition full_idx :: "(string \<times> int) list" where
  "full_idx = List.product days [0..23]"

definition grouped :: "row dataframe \<Rightarrow> ((string \<times> int) \<times> nat) list" where
  "grouped fdf = groupby_size (map (\<lambda>r. (DayOfWeek r, Hour r)) (rows fdf))"

definition heat :: "row dataframe \<Rightarrow> ((string \<times> int) \<times> nat) list" where
  "heat fdf = reindex (grouped fdf) full_idx"

definition heat_block :: "row dataframe \<Rightarrow> block" where
  "heat_block fdf =
     (if \<not> df_empty fdf then ([Heatmap (heat fdf)], Completed) else ([Info_no_heatmap], Completed))"

section \<open>The script\<close>

text \<open>Lines 173-293: everything that is drawn from \<^verbatim>\<open>filtered_df\<close>.\<close>

definition render :: "ui \<Rightarrow> row dataframe \<Rightarrow> block" where
  "render u fdf =
     seq ([Caption_filters (length (sel_types u)) (len fdf)], Completed)
    (seq (metric_cards fdf)
    (seq (map_block (rnd u) fdf)
    (seq (charts_block fdf) (heat_block fdf))))"

text \<open>
  Lines 133-293, the dashboard. The option lists of lines 152-157 only feed the
  widgets, whose answers are in \<open>u\<close>.
\<close>

definition dashboard :: "(string \<Rightarrow> int option) \<Rightarrow> filesystem \<Rightarrow> ui \<Rightarrow> int \<Rightarrow> state
    \<Rightarrow> block \<times> state" where
  "dashboard parse fs u year s =
     (if back_home u then (([], Rerun), s\<lparr>app_mode := Some ''Welcome''\<rparr>)
      else
        (case cached_load_data parse fs year s of
           (Inl e, s1) \<Rightarrow> (([], Raised e), s1)
         | (Inr None, s1) \<Rightarrow> (([Error_not_found year], Stopped), s1)
         | (Inr (Some a), s1) \<Rightarrow>
             (case filter_engine s1 a (sel_types u) (sel_districts u) (arrest u) of
                (s2, b) \<Rightarrow>
                  (seq ([Success_rows (len (objects s1 ! a))], Completed)
                       (render u (objects s2 ! b)), s2))))"

text \<open>
  Lines 94-127, the landing page. The years it scans for only feed the slider, whose
  answer is in \<open>u\<close>.
\<close>

definition landing :: "ui \<Rightarrow> state \<Rightarrow> block \<times> state" where
  "landing u s =
     (if launch u
      then (([], Rerun), s\<lparr>selected_year := Some (chosen_year u), app_mode := Some ''Dashboard''\<rparr>)
      else (([], Completed), s))"

text \<open>Lines 17-20: the defaults of the session.\<close>

definition init_session :: "state \<Rightarrow> state" where
  "init_session s =
     (let s = (if app_mode s = None then s\<lparr>app_mode := Some ''Welcome''\<rparr> else s)
      in if selected_year s = None then s\<lparr>selected_year := Some 2024\<rparr> else s)"

text \<open>
  Lines 84-90, which stand at module level between \<^verbatim>\<open>load_data\<close> and the pages. They
  read the names \<^verbatim>\<open>df\<close> and \<^verbatim>\<open>selected_year\<close> of the module; the arguments say what
  these names are bound to (\<open>None\<close>: not bound; for \<^verbatim>\<open>df\<close> the bound value is a table or
  Python's \<^verbatim>\<open>None\<close>).
\<close>

definition guard :: "row dataframe option option \<Rightarrow> int option \<Rightarrow> block" where
  "guard df_binding year_binding =
     (case df_binding of
        None \<Rightarrow> ([], Raised (NameError ''df''))
      | Some None \<Rightarrow>
          (case year_binding of
             None \<Rightarrow> ([], Raised (NameError ''selected_year''))
           | Some y \<Rightarrow> ([Error_file_missing y, Info_check_repository], Stopped))
      | Some (Some t) \<Rightarrow>
          if df_empty t then
            (case year_binding of
               None \<Rightarrow> ([], Raised (NameError ''selected_year''))
             | Some y \<Rightarrow> ([Error_file_missing y, Info_check_repository], Stopped))
          else ([Success_loaded (len t)], Completed))"

text \<open>
  One run of the script. Nothing before line 84 assigns \<^verbatim>\<open>df\<close> or \<^verbatim>\<open>selected_year\<close> at
  module level (the \<^verbatim>\<open>df\<close> of lines 76-81 is local to \<^verbatim>\<open>load_data\<close>, the selected year
  is a key of the session), so the guard runs with both names unbound.
\<close>

definition pages :: "(string \<Rightarrow> int option) \<Rightarrow> filesystem \<Rightarrow> ui \<Rightarrow> state \<Rightarrow> block \<times> state" where
  "pages parse fs u s =
     (if app_mode s = Some ''Welcome'' then landing u s
      else if app_mode s = Some ''Dashboard'' then
        (case selected_year s of
           None \<Rightarrow> (([], Raised KeyError), s)
         | Some year \<Rightarrow> dashboard parse fs u year s)
      else (([], Completed), s))"

definition app :: "(string \<Rightarrow> int option) \<Rightarrow> filesystem \<Rightarrow> ui \<Rightarrow> state \<Rightarrow> block \<times> state" where
  "app parse fs u s =
     (let s0 = init_session s
      in case guard None None of
           (es, Completed) \<Rightarrow> (case pages parse fs u s0 of (b, s1) \<Rightarrow> (seq (es, Completed) b, s1))
         | (es, out) \<Rightarrow> ((es, out), s0))"

section \<open>Reading the effects of a call\<close>

text \<open>The paths tested, and the entries opened, in a list of file system calls.\<close>

fun probed_paths :: "io list \<Rightarrow> string list" where
  "probed_paths [] = []"
| "probed_paths (Exists p # l) = p # probed_paths l"
| "probed_paths (_ # l) = probed_paths l"

fun opened_members :: "io list \<Rightarrow> string list" where
  "opened_members [] = []"
| "opened_members (MemberOpen n # l) = n # opened_members l"
| "opened_members (_ # l) = opened_members l"

text \<open>
  The four candidate paths as the specification lists them: the directories \<^verbatim>\<open>.\<close> and
  \<^verbatim>\<open>split_data_by_year\<close>, in that order, each with the two file names, in their order.
\<close>

definition candidate_paths :: "int \<Rightarrow> string list" where
  "candidate_paths year =
     [''./chicago_crime_'' @ str_int year @ ''.csv.zip'',
      ''./chicago_crime_'' @ str_int year @ ''.zip'',
      ''split_data_by_year/chicago_crime_'' @ str_int year @ ''.csv.zip'',
      ''split_data_by_year/chicago_crime_'' @ str_int year @ ''.zip'']"

text \<open>An entry that the extractor accepts (line 71).\<close>

definition real_csv :: "string \<Rightarrow> bool" where
  "real_csv name \<longleftrightarrow> endswith name ''.csv'' \<and> \<not> startswith name ''__MACOSX''"

text \<open>
  The condition of the filter as the specification states it: the type is selected,
  no district is selected or the district is, and the arrest choice admits the record.
\<close>

definition selected :: "string list \<Rightarrow> int list \<Rightarrow> string \<Rightarrow> row \<Rightarrow> bool" where
  "selected types districts arr r \<longleftrightarrow>
     Primary_Type r \<in> set types
     \<and> (districts = [] \<or> (\<exists>d \<in> set districts. District r = Some d))
     \<and> (arr = ''All'' \<or> (arr = ''Yes'' \<and> Arrest r) \<or> (arr = ''No'' \<and> \<not> Arrest r))"


section \<open>A small year\<close>

text \<open>
  An archive as macOS writes it, in the second search directory, with two incidents:
  one on Monday 15 January 2024 at 14:30, one on Saturday 2 March 2024 at 23:05 that
  has no district, no coordinates and no location description.
\<close>

definition ex_parse :: "string \<Rightarrow> int option" where
  "ex_parse s =
     (if s = ''01/15/2024 02:30:00 PM'' then Some 1705329000000000000
      else if s = ''03/02/2024 11:05:00 PM'' then Some 1709420700000000000
      else None)"

definition ex_rec1 :: "string incident" where
  "ex_rec1 = \<lparr>Date = ''01/15/2024 02:30:00 PM'', Primary_Type = ''THEFT'',
     Description = Some ''RETAIL THEFT'', Arrest = False, District = Some 11,
     Latitude = Some 41.88, Longitude = Some (- 87.63),
     Location_Description = Some ''STREET''\<rparr>"

definition ex_rec2 :: "string incident" where
  "ex_rec2 = \<lparr>Date = ''03/02/2024 11:05:00 PM'', Primary_Type = ''BATTERY'',
     Description = Some ''SIMPLE'', Arrest = True, District = None,
     Latitude = None, Longitude = None, Location_Description = None\<rparr>"

definition ex_csv :: csv_file where
  "ex_csv = \<lparr>header = [''ID'', ''Date'', ''Primary Type'', ''Description'',
       ''Location Description'', ''Arrest'', ''District'', ''Latitude'', ''Longitude''],
     records = [ex_rec1, ex_rec2]\<rparr>"

definition ex_zip :: archive where
  "ex_zip = \<lparr>namelist = [''__MACOSX/._chicago_crime_2024.csv'', ''chicago_crime_2024.csv''],
     member = (\<lambda>name. if name = ''chicago_crime_2024.csv'' then Some ex_csv else None)\<rparr>"

definition ex_fs :: filesystem where
  "ex_fs p = (if p = ''split_data_by_year/chicago_crime_2024.csv.zip'' then Some (Zip ex_zip)
              else None)"

definition ex_row1 :: row where
  "ex_row1 = \<lparr>Date = 1705329000000000000, Primary_Type = ''THEFT'',
     Description = Some ''RETAIL THEFT'', Arrest = False, District = Some 11,
     Latitude = Some 41.88, Longitude = Some (- 87.63),
     Location_Description = Some ''STREET'',
     Month_Num = 1, Hour = 14, DayOfWeek = ''Monday''\<rparr>"

definition ex_row2 :: row where
  "ex_row2 = \<lparr>Date = 1709420700000000000, Primary_Type = ''BATTERY'',
     Description = Some ''SIMPLE'', Arrest = True, District = None,
     Latitude = None, Longitude = None, Location_Description = None,
     Month_Num = 3, Hour = 23, DayOfWeek = ''Saturday''\<rparr>"

definition ex_columns :: "string list" where
  "ex_columns = [''Date'', ''Primary Type'', ''Description'', ''Location Description'',
     ''Arrest'', ''District'', ''Latitude'', ''Longitude'', ''Month_Num'', ''Hour'',
     ''DayOfWeek'']"

definition ex_loaded :: "row dataframe" where
  "ex_loaded = \<lparr>columns = ex_columns, rows = [ex_row1, ex_row2]\<rparr>"

text \<open>An archive that holds no CSV entry besides the metadata of macOS.\<close>

definition ex_zip_meta :: archive where
  "ex_zip_meta = \<lparr>namelist = [''__MACOSX/._chicago_crime_2023.csv'', ''README.txt''],
     member = (\<lambda>name. None)\<rparr>"

definition ex_fs_meta :: filesystem where
  "ex_fs_meta p = (if p = ''./chicago_crime_2023.zip'' then Some (Zip ex_zip_meta) else None)"

text \<open>
  An archive with two CSV entries besides the metadata of macOS: the file of the
  year first, an older file with one incident after it.
\<close>

definition ex_csv_old :: csv_file where
  "ex_csv_old = \<lparr>header = [''ID'', ''Date'', ''Primary Type'', ''Description'',
       ''Location Description'', ''Arrest'', ''District'', ''Latitude'', ''Longitude''],
     records = [ex_rec2]\<rparr>"

definition ex_zip_two :: archive where
  "ex_zip_two = \<lparr>namelist = [''__MACOSX/._chicago_crime_2024.csv'', ''chicago_crime_2024.csv'',
       ''backup/chicago_crime_2024_old.csv''],
     member = (\<lambda>name. if name = ''chicago_crime_2024.csv'' then Some ex_csv
                      else if name = ''backup/chicago_crime_2024_old.csv'' then Some ex_csv_old
                      else None)\<rparr>"

definition ex_fs_two :: filesystem where
  "ex_fs_two p = (if p = ''./chicago_crime_2024.zip'' then Some (Zip ex_zip_two) else None)"

text \<open>A fresh server and session, in dashboard mode for 2024.\<close>

definition ex_state :: state where
  "ex_state = \<lparr>app_mode = Some ''Dashboard'', selected_year = Some 2024, cache = [], objects = []\<rparr>"

text \<open>The same, after the year has been loaded once.\<close>

definition ex_state1 :: state where
  "ex_state1 = ex_state\<lparr>cache := [(2024, Some ex_loaded)], objects := [ex_loaded]\<rparr>"


definition ex_gen :: "nat \<Rightarrow> nat" where
  "ex_gen k = 0"

text \<open>A view of one incident, the one without location description.\<close>

definition ex_no_location :: "row dataframe" where
  "ex_no_location = \<lparr>columns = ex_columns, rows = [ex_row2]\<rparr>"


text \<open>
  The year 2022: an archive whose CSV entry has the header line and no record, and
  the table that is loaded from it. The session is in dashboard mode for this year;
  the user has chosen one crime type and touches no button.
\<close>

definition ex_csv_empty :: csv_file where
  "ex_csv_empty = \<lparr>header = [''ID'', ''Date'', ''Primary Type'', ''Description'',
       ''Location Description'', ''Arrest'', ''District'', ''Latitude'', ''Longitude''],
     records = []\<rparr>"

definition ex_zip_empty :: archive where
  "ex_zip_empty = \<lparr>namelist = [''chicago_crime_2022.csv''],
     member = (\<lambda>name. if name = ''chicago_crime_2022.csv'' then Some ex_csv_empty else None)\<rparr>"

definition ex_fs_empty :: filesystem where
  "ex_fs_empty p = (if p = ''./chicago_crime_2022.csv.zip'' then Some (Zip ex_zip_empty) else None)"

definition ex_empty :: "row dataframe" where
  "ex_empty = \<lparr>columns = ex_columns, rows = []\<rparr>"

definition ex_state_2022 :: state where
  "ex_state_2022 = \<lparr>app_mode = Some ''Dashboard'', selected_year = Some 2022, cache = [],
     objects = []\<rparr>"

definition ex_ui :: ui where
  "ex_ui = \<lparr>launch = False, chosen_year = 2022, back_home = False, sel_types = [''THEFT''],
     sel_districts = [], arrest = ''All'', rnd = ex_gen\<rparr>"

section \<open>Properties of the loader\<close>

subsection \<open>Evaluating the small year\<close>

lemma str_int_2024: "str_int 2024 = ''2024''"
  by (simp add: str_int_def str_nat.simps digit_chr_def)

lemma str_int_2023: "str_int 2023 = ''2023''"
  by (simp add: str_int_def str_nat.simps digit_chr_def)

lemma ex_dates:
  "dt_month 1705329000000000000 = 1" "dt_hour 1705329000000000000 = 14"
  "dt_day_name 1705329000000000000 = ''Monday''"
  "dt_month 1709420700000000000 = 3" "dt_hour 1709420700000000000 = 23"
  "dt_day_name 1709420700000000000 = ''Saturday''"
  by (simp_all add: dt_month_def dt_hour_def dt_day_name_def dt_weekday_def day_names_def
      day_of_year_def days_of_def Let_def)

lemma ex_locate:
  "locate ex_fs 2024 =
     ([''./chicago_crime_2024.csv.zip'', ''./chicago_crime_2024.zip'',
       ''split_data_by_year/chicago_crime_2024.csv.zip''],
      Some ''split_data_by_year/chicago_crime_2024.csv.zip'')"
  by (simp add: locate_def search_dirs_def possible_files_def str_int_2024 path_join_def
      startswith_def endswith_def exists_def ex_fs_def Let_def)

lemma ex_read_archive:
  "read_archive ex_parse ex_zip = ([MemberOpen ''chicago_crime_2024.csv''], Inr (Some ex_loaded))"
  by (simp add: read_archive_def ex_zip_def startswith_def endswith_def read_csv_def ex_csv_def
      cols_def ex_parse_def ex_rec1_def ex_rec2_def derive_def derive_row_def setitem_label_def
      ex_dates ex_loaded_def ex_columns_def ex_row1_def ex_row2_def)

lemma ex_load_data:
  "load_data ex_parse ex_fs 2024 =
     ([Exists ''./chicago_crime_2024.csv.zip'', Exists ''./chicago_crime_2024.zip'',
       Exists ''split_data_by_year/chicago_crime_2024.csv.zip'',
       ZipOpen ''split_data_by_year/chicago_crime_2024.csv.zip'',
       MemberOpen ''chicago_crime_2024.csv''],
      Inr (Some ex_loaded))"
  by (simp add: load_data_def ex_locate ex_read_archive ex_fs_def)

lemma ex_read_entry:
  "(case read_csv (Some ex_csv) cols of
      Inl e \<Rightarrow> Inl e
    | Inr df \<Rightarrow>
        (case to_datetime ex_parse (map Date (rows df)) of
           Inl e \<Rightarrow> Inl e
         | Inr ts \<Rightarrow> Inr (Some (derive df ts)))) = Inr (Some ex_loaded)"
  by (simp add: read_csv_def ex_csv_def
      cols_def ex_parse_def ex_rec1_def ex_rec2_def derive_def derive_row_def setitem_label_def
      ex_dates ex_loaded_def ex_columns_def ex_row1_def ex_row2_def)

lemma ex_locate_two:
  "locate ex_fs_two 2024 =
     ([''./chicago_crime_2024.csv.zip'', ''./chicago_crime_2024.zip''],
      Some ''./chicago_crime_2024.zip'')"
  by (simp add: locate_def search_dirs_def possible_files_def str_int_2024 path_join_def
      startswith_def endswith_def exists_def ex_fs_two_def Let_def)

lemma ex_locate_meta:
  "locate ex_fs_meta 2023 =
     ([''./chicago_crime_2023.csv.zip'', ''./chicago_crime_2023.zip''],
      Some ''./chicago_crime_2023.zip'')"
  by (simp add: locate_def search_dirs_def possible_files_def str_int_2023 path_join_def
      startswith_def endswith_def exists_def ex_fs_meta_def Let_def)

subsection \<open>The archive locator\<close>

lemma joined_paths:
  "map (path_join ''.'') (possible_files year) = take 2 (candidate_paths year)"
  "map (path_join ''split_data_by_year'') (possible_files year) = drop 2 (candidate_paths year)"
  by (simp_all add: possible_files_def candidate_paths_def path_join_def startswith_def
      endswith_def)

lemma candidate_paths_pairs:
  "candidate_paths year = concat (map (\<lambda>d. map (path_join d) (possible_files year)) search_dirs)"
  by (simp add: search_dirs_def joined_paths)

lemma probe_files_eq:
  "probe_files fs d files found =
     (takeWhile (\<lambda>p. \<not> exists fs p) (map (path_join d) files)
        @ take 1 (dropWhile (\<lambda>p. \<not> exists fs p) (map (path_join d) files)),
      case find (exists fs) (map (path_join d) files) of None \<Rightarrow> found | Some p \<Rightarrow> Some p)"
  by (induction files) (auto simp: Let_def split: prod.splits)

lemma locate_eq:
  "locate fs year =
     (takeWhile (\<lambda>p. \<not> exists fs p) (candidate_paths year)
        @ take 1 (dropWhile (\<lambda>p. \<not> exists fs p) (candidate_paths year)),
      find (exists fs) (candidate_paths year))"
  unfolding locate_def search_dirs_def
  apply (simp add: probe_files_eq joined_paths split: prod.splits)
  apply (auto simp: candidate_paths_def split: option.splits)
  done

lemma candidate_nonempty: "p \<in> set (candidate_paths year) \<Longrightarrow> p \<noteq> []"
  by (auto simp: candidate_paths_def)

lemma find_in_set: "find P xs = Some x \<Longrightarrow> x \<in> set xs \<and> P x"
  by (induction xs) (auto split: if_splits)

lemma located_path: "snd (locate fs year) = Some p \<Longrightarrow> p \<noteq> [] \<and> fs p \<noteq> None"
  by (auto simp: locate_eq exists_def dest!: find_in_set candidate_nonempty)

lemma probed_paths_Exists [simp]: "probed_paths (map Exists ps @ l) = ps @ probed_paths l"
  by (induction ps) auto

lemma opened_members_Exists [simp]: "opened_members (map Exists ps @ l) = opened_members l"
  by (induction ps) auto

lemma real_csv_abs:
  "(\<lambda>name. endswith name ''.csv'' \<and> \<not> startswith name ''__MACOSX'') = real_csv"
  by (simp add: real_csv_def fun_eq_iff)

lemma filter_head_find: "(case filter P xs of [] \<Rightarrow> None | x # _ \<Rightarrow> Some x) = find P xs"
  by (induction xs) auto

lemma read_archive_io:
  "fst (read_archive parse z) = (case find real_csv (namelist z) of None \<Rightarrow> [] | Some n \<Rightarrow> [MemberOpen n])"
  unfolding filter_head_find [symmetric]
  by (simp add: read_archive_def real_csv_abs split: list.splits)

lemma read_archive_none:
  "find real_csv (namelist z) = None \<Longrightarrow> snd (read_archive parse z) = Inr None"
  unfolding filter_head_find [symmetric]
  by (simp add: read_archive_def real_csv_abs split: list.splits)

lemma read_archive_result:
  "snd (read_archive parse z) =
     (case find real_csv (namelist z) of
        None \<Rightarrow> Inr None
      | Some name \<Rightarrow>
          (case read_csv (member z name) cols of
             Inl e \<Rightarrow> Inl e
           | Inr df \<Rightarrow>
               (case to_datetime parse (map Date (rows df)) of
                  Inl e \<Rightarrow> Inl e
                | Inr ts \<Rightarrow> Inr (Some (derive df ts)))))"
  unfolding filter_head_find [symmetric]
  by (simp add: read_archive_def real_csv_abs split: list.splits)

lemma load_data_io:
  "fst (load_data parse fs year) =
     map Exists (fst (locate fs year)) @
     (case snd (locate fs year) of
        None \<Rightarrow> []
      | Some p \<Rightarrow> ZipOpen p # (case fs p of Some (Zip z) \<Rightarrow> fst (read_archive parse z) | _ \<Rightarrow> []))"
proof (cases "locate fs year")
  case (Pair probed found)
  show ?thesis
  proof (cases found)
    case None
    with Pair show ?thesis by (simp add: load_data_def)
  next
    case (Some p)
    with Pair have "p \<noteq> []" using located_path [of fs year p] by simp
    with Pair Some show ?thesis
      by (auto simp: load_data_def split: option.splits node.splits prod.splits)
  qed
qed

lemma load_data_result:
  "snd (load_data parse fs year) =
     (case snd (locate fs year) of
        None \<Rightarrow> Inr None
      | Some p \<Rightarrow> (case fs p of Some (Zip z) \<Rightarrow> snd (read_archive parse z) | _ \<Rightarrow> Inl ZipError))"
proof (cases "locate fs year")
  case (Pair probed found)
  show ?thesis
  proof (cases found)
    case None
    with Pair show ?thesis by (simp add: load_data_def)
  next
    case (Some p)
    with Pair have "p \<noteq> []" using located_path [of fs year p] by simp
    with Pair Some show ?thesis
      by (auto simp: load_data_def split: option.splits node.splits prod.splits)
  qed
qed

lemma probed_paths_tail:
  "probed_paths (case x of None \<Rightarrow> [] | Some p \<Rightarrow> ZipOpen p # (case fs p of Some (Zip z) \<Rightarrow> fst (read_archive parse z) | _ \<Rightarrow> [])) = []"
  by (auto simp: read_archive_io split: option.splits node.splits)

text \<open>
  C2. For every year the locator tests the four candidate paths (the two directories
  paired with the two file names, in that order) and no other path, in order, up to
  the first that exists, which it selects and opens; if none exists all four are
  tested and \<open>load_data\<close> returns \<open>None\<close>.
\<close>

theorem archive_locator:
  "candidate_paths year = concat (map (\<lambda>d. map (path_join d) (possible_files year)) search_dirs)
   \<and> probed_paths (fst (load_data parse fs year)) =
       takeWhile (\<lambda>p. \<not> exists fs p) (candidate_paths year)
         @ take 1 (dropWhile (\<lambda>p. \<not> exists fs p) (candidate_paths year))
   \<and> snd (locate fs year) = find (exists fs) (candidate_paths year)
   \<and> (\<forall>p. find (exists fs) (candidate_paths year) = Some p
          \<longrightarrow> ZipOpen p \<in> set (fst (load_data parse fs year)))
   \<and> (find (exists fs) (candidate_paths year) = None
        \<longrightarrow> probed_paths (fst (load_data parse fs year)) = candidate_paths year
          \<and> snd (load_data parse fs year) = Inr None)"
proof -
  have probes: "probed_paths (fst (load_data parse fs year)) = fst (locate fs year)"
    by (simp add: load_data_io probed_paths_tail)
  have none: "fst (locate fs year) = candidate_paths year"
    if "find (exists fs) (candidate_paths year) = None"
  proof -
    from that have "\<forall>p \<in> set (candidate_paths year). \<not> exists fs p"
      by (auto simp: find_None_iff)
    then show ?thesis
      by (simp add: locate_eq takeWhile_eq_all_conv [THEN iffD2]
          dropWhile_eq_Nil_conv [THEN iffD2])
  qed
  have some: "ZipOpen p \<in> set (fst (load_data parse fs year))"
    if "find (exists fs) (candidate_paths year) = Some p" for p
    using that by (simp add: load_data_io locate_eq)
  have first: "probed_paths (fst (load_data parse fs year)) =
       takeWhile (\<lambda>p. \<not> exists fs p) (candidate_paths year)
         @ take 1 (dropWhile (\<lambda>p. \<not> exists fs p) (candidate_paths year))"
    by (simp add: probes locate_eq)
  have result: "snd (load_data parse fs year) = Inr None"
    if "find (exists fs) (candidate_paths year) = None"
    using that by (simp add: load_data_result locate_eq)
  have found: "snd (locate fs year) = find (exists fs) (candidate_paths year)"
    by (simp add: locate_eq)
  from candidate_paths_pairs first found some none result probes show ?thesis
    by presburger
qed

theorem archive_locator_witness:
  "find (exists (\<lambda>p. None)) (candidate_paths 2024) = None
   \<and> probed_paths (fst (load_data ex_parse (\<lambda>p. None) 2024)) =
       [''./chicago_crime_2024.csv.zip'', ''./chicago_crime_2024.zip'',
        ''split_data_by_year/chicago_crime_2024.csv.zip'',
        ''split_data_by_year/chicago_crime_2024.zip'']
   \<and> snd (load_data ex_parse (\<lambda>p. None) 2024) = Inr None
   \<and> find (exists ex_fs) (candidate_paths 2024) =
       Some ''split_data_by_year/chicago_crime_2024.csv.zip''
   \<and> ZipOpen ''split_data_by_year/chicago_crime_2024.csv.zip''
       \<in> set (fst (load_data ex_parse ex_fs 2024))"
proof -
  have none: "find (exists (\<lambda>p. None)) (candidate_paths 2024) = None"
    by (simp add: candidate_paths_def exists_def)
  have some: "find (exists ex_fs) (candidate_paths 2024) =
      Some ''split_data_by_year/chicago_crime_2024.csv.zip''"
    by (simp add: candidate_paths_def exists_def ex_fs_def str_int_2024)
  from archive_locator [of 2024 ex_parse "\<lambda>p. None"] none
  have a: "probed_paths (fst (load_data ex_parse (\<lambda>p. None) 2024)) = candidate_paths 2024"
    "snd (load_data ex_parse (\<lambda>p. None) 2024) = Inr None"
    by blast+
  from archive_locator [of 2024 ex_parse ex_fs] some
  have b: "ZipOpen ''split_data_by_year/chicago_crime_2024.csv.zip''
       \<in> set (fst (load_data ex_parse ex_fs 2024))"
    by blast
  have c: "candidate_paths 2024 =
       [''./chicago_crime_2024.csv.zip'', ''./chicago_crime_2024.zip'',
        ''split_data_by_year/chicago_crime_2024.csv.zip'',
        ''split_data_by_year/chicago_crime_2024.zip'']"
    by (simp add: candidate_paths_def str_int_2024)
  from none some a b show ?thesis
    unfolding c by blast
qed

subsection \<open>The CSV extractor\<close>

lemma to_datetime_total:
  assumes "\<forall>r \<in> set rs. parse (Date r) \<noteq> None"
  obtains ts where "to_datetime parse (map Date rs) = Inr ts" and "length ts = length rs"
    and "map Some ts = map (\<lambda>r. parse (Date r)) rs"
proof -
  from assms have "\<exists>ts. to_datetime parse (map Date rs) = Inr ts \<and> length ts = length rs
      \<and> map Some ts = map (\<lambda>r. parse (Date r)) rs"
  proof (induction rs)
    case Nil
    show ?case by simp
  next
    case (Cons r rs)
    from Cons.prems obtain t where t: "parse (Date r) = Some t" by auto
    from Cons obtain ts where "to_datetime parse (map Date rs) = Inr ts"
      and "length ts = length rs" and "map Some ts = map (\<lambda>r. parse (Date r)) rs" by auto
    with t show ?case by simp
  qed
  with that show thesis by blast
qed

lemma derive_rows_fields:
  assumes "length rs = length ts"
  shows "length (map2 derive_row rs ts) = length rs"
    and "map Primary_Type (map2 derive_row rs ts) = map Primary_Type rs"
    and "map Description (map2 derive_row rs ts) = map Description rs"
    and "map Location_Description (map2 derive_row rs ts) = map Location_Description rs"
    and "map Arrest (map2 derive_row rs ts) = map Arrest rs"
    and "map District (map2 derive_row rs ts) = map District rs"
    and "map Latitude (map2 derive_row rs ts) = map Latitude rs"
    and "map Longitude (map2 derive_row rs ts) = map Longitude rs"
    and "map (\<lambda>r. Some (Date r)) (map2 derive_row rs ts) = map Some ts"
  using assms by (induction rs ts rule: list_induct2) (simp_all add: derive_row_def)

text \<open>
  C3. For every located zip archive the extractor opens exactly one entry, the first
  name of the archive's name list that ends with \<^verbatim>\<open>.csv\<close> and does not start with
  \<^verbatim>\<open>__MACOSX\<close>; no entry that starts with \<^verbatim>\<open>__MACOSX\<close> is opened. What \<open>load_data\<close>
  returns is what lines 76-81 make of this one entry: the error of reading it, or the
  table of its records with the derived columns, whatever the other entries hold; and
  if there is no such name \<open>load_data\<close> returns \<open>None\<close>.
\<close>

theorem csv_extractor:
  assumes "snd (locate fs year) = Some p" and "fs p = Some (Zip z)"
  shows "opened_members (fst (load_data parse fs year)) =
           (case find real_csv (namelist z) of None \<Rightarrow> [] | Some name \<Rightarrow> [name])
         \<and> (\<forall>name \<in> set (opened_members (fst (load_data parse fs year))).
              \<not> startswith name ''__MACOSX'' \<and> endswith name ''.csv'')
         \<and> snd (load_data parse fs year) =
             (case find real_csv (namelist z) of
                None \<Rightarrow> Inr None
              | Some name \<Rightarrow>
                  (case read_csv (member z name) cols of
                     Inl e \<Rightarrow> Inl e
                   | Inr df \<Rightarrow>
                       (case to_datetime parse (map Date (rows df)) of
                          Inl e \<Rightarrow> Inl e
                        | Inr ts \<Rightarrow> Inr (Some (derive df ts)))))
         \<and> (\<forall>name c. find real_csv (namelist z) = Some name \<and> member z name = Some c
              \<and> set cols \<subseteq> set (header c)
              \<and> (\<forall>r \<in> set (records c). parse (Date r) \<noteq> None) \<longrightarrow>
              (\<exists>df. snd (load_data parse fs year) = Inr (Some df)
                 \<and> length (rows df) = length (records c)
                 \<and> map Primary_Type (rows df) = map Primary_Type (records c)
                 \<and> map Description (rows df) = map Description (records c)
                 \<and> map Location_Description (rows df) = map Location_Description (records c)
                 \<and> map Arrest (rows df) = map Arrest (records c)
                 \<and> map District (rows df) = map District (records c)
                 \<and> map Latitude (rows df) = map Latitude (records c)
                 \<and> map Longitude (rows df) = map Longitude (records c)
                 \<and> map (\<lambda>r. Some (Date r)) (rows df) = map (\<lambda>r. parse (Date r)) (records c)))
         \<and> (find real_csv (namelist z) = None \<longrightarrow> snd (load_data parse fs year) = Inr None)"
proof -
  have opened: "opened_members (fst (load_data parse fs year)) =
      (case find real_csv (namelist z) of None \<Rightarrow> [] | Some name \<Rightarrow> [name])"
    using assms by (simp add: load_data_io read_archive_io split: option.splits)
  have names: "\<forall>name \<in> set (opened_members (fst (load_data parse fs year))).
      \<not> startswith name ''__MACOSX'' \<and> endswith name ''.csv''"
    using opened by (auto simp: real_csv_def split: option.splits dest: find_in_set)
  have res: "snd (load_data parse fs year) = snd (read_archive parse z)"
    using assms by (simp add: load_data_result)
  have result: "snd (load_data parse fs year) =
             (case find real_csv (namelist z) of
                None \<Rightarrow> Inr None
              | Some name \<Rightarrow>
                  (case read_csv (member z name) cols of
                     Inl e \<Rightarrow> Inl e
                   | Inr df \<Rightarrow>
                       (case to_datetime parse (map Date (rows df)) of
                          Inl e \<Rightarrow> Inl e
                        | Inr ts \<Rightarrow> Inr (Some (derive df ts)))))"
    unfolding res by (rule read_archive_result)
  have none: "find real_csv (namelist z) = None \<longrightarrow> snd (load_data parse fs year) = Inr None"
    by (simp add: result)
  have table: "\<forall>name c. find real_csv (namelist z) = Some name \<and> member z name = Some c
              \<and> set cols \<subseteq> set (header c)
              \<and> (\<forall>r \<in> set (records c). parse (Date r) \<noteq> None) \<longrightarrow>
              (\<exists>df. snd (load_data parse fs year) = Inr (Some df)
                 \<and> length (rows df) = length (records c)
                 \<and> map Primary_Type (rows df) = map Primary_Type (records c)
                 \<and> map Description (rows df) = map Description (records c)
                 \<and> map Location_Description (rows df) = map Location_Description (records c)
                 \<and> map Arrest (rows df) = map Arrest (records c)
                 \<and> map District (rows df) = map District (records c)
                 \<and> map Latitude (rows df) = map Latitude (records c)
                 \<and> map Longitude (rows df) = map Longitude (records c)
                 \<and> map (\<lambda>r. Some (Date r)) (rows df) = map (\<lambda>r. parse (Date r)) (records c))"
  proof (intro allI impI, elim conjE)
    fix name c
    assume f: "find real_csv (namelist z) = Some name" and m: "member z name = Some c"
      and h: "set cols \<subseteq> set (header c)"
      and d: "\<forall>r \<in> set (records c). parse (Date r) \<noteq> None"
    from d obtain ts where ts: "to_datetime parse (map Date (records c)) = Inr ts"
      and tl: "length ts = length (records c)"
      and tv: "map Some ts = map (\<lambda>r. parse (Date r)) (records c)"
      by (rule to_datetime_total)
    let ?raw = "\<lparr>columns = filter (\<lambda>h. h \<in> set cols) (header c), rows = records c\<rparr>"
    have r: "snd (load_data parse fs year) = Inr (Some (derive ?raw ts))"
      using f m h ts by (simp add: result read_csv_def)
    have rows: "rows (derive ?raw ts) = map2 derive_row (records c) ts"
      by (simp add: derive_def)
    note fields = derive_rows_fields [OF tl [symmetric]]
    have "length (rows (derive ?raw ts)) = length (records c)
        \<and> map Primary_Type (rows (derive ?raw ts)) = map Primary_Type (records c)
        \<and> map Description (rows (derive ?raw ts)) = map Description (records c)
        \<and> map Location_Description (rows (derive ?raw ts)) = map Location_Description (records c)
        \<and> map Arrest (rows (derive ?raw ts)) = map Arrest (records c)
        \<and> map District (rows (derive ?raw ts)) = map District (records c)
        \<and> map Latitude (rows (derive ?raw ts)) = map Latitude (records c)
        \<and> map Longitude (rows (derive ?raw ts)) = map Longitude (records c)
        \<and> map (\<lambda>r. Some (Date r)) (rows (derive ?raw ts)) = map (\<lambda>r. parse (Date r)) (records c)"
      unfolding rows using fields tv tl by simp
    with r show "\<exists>df. snd (load_data parse fs year) = Inr (Some df)
                 \<and> length (rows df) = length (records c)
                 \<and> map Primary_Type (rows df) = map Primary_Type (records c)
                 \<and> map Description (rows df) = map Description (records c)
                 \<and> map Location_Description (rows df) = map Location_Description (records c)
                 \<and> map Arrest (rows df) = map Arrest (records c)
                 \<and> map District (rows df) = map District (records c)
                 \<and> map Latitude (rows df) = map Latitude (records c)
                 \<and> map Longitude (rows df) = map Longitude (records c)
                 \<and> map (\<lambda>r. Some (Date r)) (rows df) = map (\<lambda>r. parse (Date r)) (records c)"
      by (intro exI [of _ "derive ?raw ts"]) (elim conjE, intro conjI, assumption+)
  qed
  from opened names result table none show ?thesis by (intro conjI)
qed

theorem csv_extractor_witness:
  "snd (locate ex_fs 2024) = Some ''split_data_by_year/chicago_crime_2024.csv.zip''
   \<and> ex_fs ''split_data_by_year/chicago_crime_2024.csv.zip'' = Some (Zip ex_zip)
   \<and> opened_members (fst (load_data ex_parse ex_fs 2024)) = [''chicago_crime_2024.csv'']
   \<and> snd (load_data ex_parse ex_fs 2024) = Inr (Some ex_loaded)
   \<and> snd (locate ex_fs_two 2024) = Some ''./chicago_crime_2024.zip''
   \<and> ex_fs_two ''./chicago_crime_2024.zip'' = Some (Zip ex_zip_two)
   \<and> opened_members (fst (load_data ex_parse ex_fs_two 2024)) = [''chicago_crime_2024.csv'']
   \<and> snd (load_data ex_parse ex_fs_two 2024) = Inr (Some ex_loaded)
   \<and> snd (locate ex_fs_meta 2023) = Some ''./chicago_crime_2023.zip''
   \<and> ex_fs_meta ''./chicago_crime_2023.zip'' = Some (Zip ex_zip_meta)
   \<and> find real_csv (namelist ex_zip_meta) = None
   \<and> opened_members (fst (load_data ex_parse ex_fs_meta 2023)) = []
   \<and> snd (load_data ex_parse ex_fs_meta 2023) = Inr None"
proof -
  have 1: "snd (locate ex_fs 2024) = Some ''split_data_by_year/chicago_crime_2024.csv.zip''"
    by (simp add: ex_locate)
  have 2: "ex_fs ''split_data_by_year/chicago_crime_2024.csv.zip'' = Some (Zip ex_zip)"
    by (simp add: ex_fs_def)
  have 3: "find real_csv (namelist ex_zip) = Some ''chicago_crime_2024.csv''"
    by (simp add: ex_zip_def real_csv_def startswith_def endswith_def)
  have m3: "member ex_zip ''chicago_crime_2024.csv'' = Some ex_csv"
    by (simp add: ex_zip_def)
  have 4: "snd (locate ex_fs_meta 2023) = Some ''./chicago_crime_2023.zip''"
    by (simp add: ex_locate_meta)
  have 5: "ex_fs_meta ''./chicago_crime_2023.zip'' = Some (Zip ex_zip_meta)"
    by (simp add: ex_fs_meta_def)
  have 6: "find real_csv (namelist ex_zip_meta) = None"
    by (simp add: ex_zip_meta_def real_csv_def startswith_def endswith_def)
  have 7: "snd (locate ex_fs_two 2024) = Some ''./chicago_crime_2024.zip''"
    by (simp add: ex_locate_two)
  have 8: "ex_fs_two ''./chicago_crime_2024.zip'' = Some (Zip ex_zip_two)"
    by (simp add: ex_fs_two_def)
  have 9: "find real_csv (namelist ex_zip_two) = Some ''chicago_crime_2024.csv''"
    by (simp add: ex_zip_two_def real_csv_def startswith_def endswith_def)
  have m9: "member ex_zip_two ''chicago_crime_2024.csv'' = Some ex_csv"
    by (simp add: ex_zip_two_def)
  note a = csv_extractor [OF 1 2, of ex_parse]
  note b = csv_extractor [OF 7 8, of ex_parse]
  note c = csv_extractor [OF 4 5, of ex_parse]
  have a1: "opened_members (fst (load_data ex_parse ex_fs 2024)) = [''chicago_crime_2024.csv'']"
    using a [THEN conjunct1] by (simp add: 3)
  have a2: "snd (load_data ex_parse ex_fs 2024) = Inr (Some ex_loaded)"
    using a [THEN conjunct2, THEN conjunct2, THEN conjunct1] by (simp add: 3 m3 ex_read_entry)
  have b1: "opened_members (fst (load_data ex_parse ex_fs_two 2024)) = [''chicago_crime_2024.csv'']"
    using b [THEN conjunct1] by (simp add: 9)
  have b2: "snd (load_data ex_parse ex_fs_two 2024) = Inr (Some ex_loaded)"
    using b [THEN conjunct2, THEN conjunct2, THEN conjunct1] by (simp add: 9 m9 ex_read_entry)
  have c1: "opened_members (fst (load_data ex_parse ex_fs_meta 2023)) = []"
    using c [THEN conjunct1] by (simp add: 6)
  have c2: "snd (load_data ex_parse ex_fs_meta 2023) = Inr None"
    using c [THEN conjunct2, THEN conjunct2, THEN conjunct1] by (simp add: 6)
  from 1 2 a1 a2 7 8 b1 b2 4 5 6 c1 c2 show ?thesis by (intro conjI)
qed


subsection \<open>The column deriver\<close>

lemma day_of_cycle_bounds:
  fixes d3 :: int
  assumes "0 \<le> d3" "d3 < 1461"
  shows "0 \<le> d3 - 365 * min 3 (d3 div 365) \<and> d3 - 365 * min 3 (d3 div 365) \<le> 365"
proof (cases "d3 div 365 \<le> 3")
  case True
  then have eq: "d3 - 365 * min 3 (d3 div 365) = d3 mod 365"
    by (simp add: min_def minus_mult_div_eq_mod)
  have "0 \<le> d3 mod 365" and "d3 mod 365 < 365"
    by (rule pos_mod_sign, simp) (rule pos_mod_bound, simp)
  then show ?thesis unfolding eq by linarith
next
  case False
  then have "4 \<le> d3 div 365" by simp
  then have "4 * 365 \<le> d3"
    using div_mult_mod_eq [of d3 365] pos_mod_sign [of 365 d3] by linarith
  with assms have "d3 = 1460" by simp
  then show ?thesis by simp
qed

lemma day_of_year_bounds: "0 \<le> day_of_year d \<and> day_of_year d \<le> 365"
proof -
  define d3 where "d3 = ((d + 719468) mod 146097
      - 36524 * min 3 ((d + 719468) mod 146097 div 36524)) mod 1461"
  have "0 \<le> d3" and "d3 < 1461"
    unfolding d3_def by (rule pos_mod_sign, simp) (rule pos_mod_bound, simp)
  moreover have "day_of_year d = d3 - 365 * min 3 (d3 div 365)"
    unfolding day_of_year_def Let_def d3_def by (rule refl)
  ultimately show ?thesis
    using day_of_cycle_bounds [of d3] by simp
qed

lemma month_index_range:
  fixes y :: int
  assumes "0 \<le> y" "y \<le> 365"
  shows "0 \<le> (5 * y + 2) div 153 \<and> (5 * y + 2) div 153 \<le> 11"
proof -
  from assms have "0 \<le> 5 * y + 2" and "5 * y + 2 \<le> 1827" by simp_all
  then have "0 \<le> (5 * y + 2) div 153" and "(5 * y + 2) div 153 \<le> 1827 div 153"
    by (simp_all add: pos_imp_zdiv_nonneg_iff zdiv_mono1)
  then show ?thesis by simp
qed

lemma dt_month_range: "1 \<le> dt_month t \<and> dt_month t \<le> 12"
proof -
  define mp where "mp = (5 * day_of_year (days_of t) + 2) div 153"
  have "0 \<le> mp \<and> mp \<le> 11"
    unfolding mp_def using day_of_year_bounds [of "days_of t"] by (intro month_index_range) simp_all
  moreover have "dt_month t = (if mp < 10 then mp + 3 else mp - 9)"
    unfolding dt_month_def Let_def mp_def by (rule refl)
  ultimately show ?thesis by (simp split: if_splits)
qed

lemma dt_hour_range: "0 \<le> dt_hour t \<and> dt_hour t \<le> 23"
  by (simp add: dt_hour_def)

lemma dt_weekday_less: "dt_weekday t < 7"
proof -
  have "0 \<le> (days_of t + 3) mod 7" and "(days_of t + 3) mod 7 < 7"
    by simp_all
  then show ?thesis
    unfolding dt_weekday_def by linarith
qed

lemma dt_day_name_in: "dt_day_name t \<in> set day_names"
proof -
  have "length day_names = 7" by (simp add: day_names_def)
  with dt_weekday_less [of t] have "dt_weekday t < length day_names" by simp
  then show ?thesis unfolding dt_day_name_def by (rule nth_mem)
qed

lemma to_datetime_parsed:
  "to_datetime parse ss = Inr ts \<Longrightarrow> map parse ss = map Some ts"
  by (induction ss arbitrary: ts) (auto split: option.splits sum.splits)

lemma read_archive_SomeD:
  assumes "snd (read_archive parse z) = Inr (Some df)"
  shows "\<exists>name c ts. member z name = Some c \<and> set cols \<subseteq> set (header c)
           \<and> to_datetime parse (map Date (records c)) = Inr ts
           \<and> df = derive \<lparr>columns = filter (\<lambda>h. h \<in> set cols) (header c), rows = records c\<rparr> ts"
proof (cases "filter real_csv (namelist z)")
  case Nil
  with assms show ?thesis by (simp add: read_archive_def real_csv_abs)
next
  case (Cons name rest)
  with assms have res: "(case read_csv (member z name) cols of
        Inl e \<Rightarrow> Inl e
      | Inr df \<Rightarrow> (case to_datetime parse (map Date (rows df)) of
                     Inl e \<Rightarrow> Inl e
                   | Inr ts \<Rightarrow> Inr (Some (derive df ts)))) = Inr (Some df)"
    by (simp add: read_archive_def real_csv_abs)
  then obtain raw where raw: "read_csv (member z name) cols = Inr raw"
    by (cases "read_csv (member z name) cols") auto
  with res obtain ts where ts: "to_datetime parse (map Date (rows raw)) = Inr ts"
    and df: "df = derive raw ts"
    by (cases "to_datetime parse (map Date (rows raw))") auto
  from raw obtain c where c: "member z name = Some c" "set cols \<subseteq> set (header c)"
    "raw = \<lparr>columns = filter (\<lambda>h. h \<in> set cols) (header c), rows = records c\<rparr>"
    by (auto simp: read_csv_def split: option.splits if_splits)
  with ts df show ?thesis by auto
qed

lemma load_data_SomeD:
  assumes "snd (load_data parse fs year) = Inr (Some df)"
  shows "\<exists>p z name c ts. fs p = Some (Zip z) \<and> member z name = Some c
           \<and> set cols \<subseteq> set (header c)
           \<and> to_datetime parse (map Date (records c)) = Inr ts
           \<and> df = derive \<lparr>columns = filter (\<lambda>h. h \<in> set cols) (header c), rows = records c\<rparr> ts"
proof -
  from assms obtain p z where "fs p = Some (Zip z)" "snd (read_archive parse z) = Inr (Some df)"
    by (auto simp: load_data_result split: option.splits node.splits)
  with read_archive_SomeD [of parse z df] show ?thesis by blast
qed

lemma derive_columns:
  "set (columns (derive df ts)) = set (columns df) \<union> {''Date'', ''Month_Num'', ''Hour'', ''DayOfWeek''}"
  by (auto simp: derive_def setitem_label_def)

lemma map2_derive_row_Date:
  "length ts = length xs \<Longrightarrow> map Date (map2 derive_row xs ts) = ts"
  by (induction ts xs rule: list_induct2) (simp_all add: derive_row_def)

lemma derive_rows:
  "length ts = length (rows df) \<Longrightarrow> map Date (rows (derive df ts)) = ts"
  unfolding derive_def by (simp only: dataframe.select_convs map2_derive_row_Date)

lemma derive_row_fields:
  "r \<in> set (rows (derive df ts)) \<Longrightarrow>
     Month_Num r = dt_month (Date r) \<and> Hour r = dt_hour (Date r)
     \<and> DayOfWeek r = dt_day_name (Date r)"
  by (auto simp: derive_def derive_row_def dest!: set_zip_leftD)

text \<open>
  C4, as amended. For every row of the loaded table, the Date is the timestamp that
  the parser gives for the Date text of the file, and the loader derives columns
  labelled \<^verbatim>\<open>Month_Num\<close>, \<^verbatim>\<open>Hour\<close> and \<^verbatim>\<open>DayOfWeek\<close> (no column is labelled \<^verbatim>\<open>Month\<close>)
  whose values are the calendar month (1-12) of Date, the hour of day (0-23) of Date
  and the English weekday name of Date.
\<close>

theorem column_deriver:
  assumes "snd (load_data parse fs year) = Inr (Some df)"
  shows "set [''Month_Num'', ''Hour'', ''DayOfWeek''] \<subseteq> set (columns df)
         \<and> ''Month'' \<notin> set (columns df)
         \<and> (\<exists>p z name c. fs p = Some (Zip z) \<and> member z name = Some c
               \<and> map (\<lambda>r. parse (Date r)) (records c) = map (\<lambda>r. Some (Date r)) (rows df))
         \<and> (\<forall>r \<in> set (rows df).
               Month_Num r = dt_month (Date r) \<and> 1 \<le> Month_Num r \<and> Month_Num r \<le> 12
               \<and> Hour r = dt_hour (Date r) \<and> 0 \<le> Hour r \<and> Hour r \<le> 23
               \<and> DayOfWeek r = dt_day_name (Date r) \<and> DayOfWeek r \<in> set day_names)"
proof -
  from load_data_SomeD [OF assms] obtain p z name c ts where
    src: "fs p = Some (Zip z)" "member z name = Some c" and
    parsed: "to_datetime parse (map Date (records c)) = Inr ts" and
    df: "df = derive \<lparr>columns = filter (\<lambda>h. h \<in> set cols) (header c), rows = records c\<rparr> ts"
    by blast
  have labels: "set [''Month_Num'', ''Hour'', ''DayOfWeek''] \<subseteq> set (columns df)"
    by (simp add: df derive_columns)
  have no_month: "''Month'' \<notin> set (columns df)"
    by (simp add: df derive_columns) (simp add: cols_def)
  from to_datetime_parsed [OF parsed] have ts: "map parse (map Date (records c)) = map Some ts" .
  then have "length ts = length (records c)"
    using length_map [of parse "map Date (records c)"] length_map [of Some ts] by simp
  then have "map Date (rows df) = ts"
    unfolding df by (intro derive_rows) simp
  then have "map (\<lambda>r. Some (Date r)) (rows df) = map Some ts"
    using map_map [of Some Date "rows df"] by (simp add: comp_def)
  moreover from ts have "map (\<lambda>r. parse (Date r)) (records c) = map Some ts"
    by (simp add: comp_def)
  ultimately have dates:
    "map (\<lambda>r. parse (Date r)) (records c) = map (\<lambda>r. Some (Date r)) (rows df)"
    by simp
  have fields: "Month_Num r = dt_month (Date r) \<and> 1 \<le> Month_Num r \<and> Month_Num r \<le> 12
       \<and> Hour r = dt_hour (Date r) \<and> 0 \<le> Hour r \<and> Hour r \<le> 23
       \<and> DayOfWeek r = dt_day_name (Date r) \<and> DayOfWeek r \<in> set day_names"
    if "r \<in> set (rows df)" for r
    using derive_row_fields [of r _ ts] that dt_month_range [of "Date r"]
      dt_hour_range [of "Date r"] dt_day_name_in [of "Date r"]
    by (simp add: df)
  from labels no_month src dates fields show ?thesis by blast
qed

theorem column_deriver_witness:
  "snd (load_data ex_parse ex_fs 2024) = Inr (Some ex_loaded)
   \<and> set [''Month_Num'', ''Hour'', ''DayOfWeek''] \<subseteq> set (columns ex_loaded)
   \<and> Month_Num ex_row1 = dt_month (Date ex_row1) \<and> Month_Num ex_row1 = 1
   \<and> Hour ex_row1 = dt_hour (Date ex_row1) \<and> Hour ex_row1 = 14
   \<and> DayOfWeek ex_row1 = dt_day_name (Date ex_row1) \<and> DayOfWeek ex_row1 = ''Monday''
   \<and> Month_Num ex_row2 = dt_month (Date ex_row2) \<and> Month_Num ex_row2 = 3
   \<and> Hour ex_row2 = dt_hour (Date ex_row2) \<and> Hour ex_row2 = 23
   \<and> DayOfWeek ex_row2 = dt_day_name (Date ex_row2) \<and> DayOfWeek ex_row2 = ''Saturday''"
proof -
  have loaded: "snd (load_data ex_parse ex_fs 2024) = Inr (Some ex_loaded)"
    by (simp add: ex_load_data)
  note all = column_deriver [OF loaded]
  note labels = all [THEN conjunct1]
  note fields = all [THEN conjunct2, THEN conjunct2, THEN conjunct2]
  have r1: "ex_row1 \<in> set (rows ex_loaded)" and r2: "ex_row2 \<in> set (rows ex_loaded)"
    by (simp_all add: ex_loaded_def)
  have d1: "Month_Num ex_row1 = dt_month (Date ex_row1)" "Hour ex_row1 = dt_hour (Date ex_row1)"
    "DayOfWeek ex_row1 = dt_day_name (Date ex_row1)"
    using fields [THEN bspec, OF r1] by simp_all
  have d2: "Month_Num ex_row2 = dt_month (Date ex_row2)" "Hour ex_row2 = dt_hour (Date ex_row2)"
    "DayOfWeek ex_row2 = dt_day_name (Date ex_row2)"
    using fields [THEN bspec, OF r2] by simp_all
  have v1: "Month_Num ex_row1 = 1" "Hour ex_row1 = 14" "DayOfWeek ex_row1 = ''Monday''"
    by (simp_all add: ex_row1_def)
  have v2: "Month_Num ex_row2 = 3" "Hour ex_row2 = 23" "DayOfWeek ex_row2 = ''Saturday''"
    by (simp_all add: ex_row2_def)
  from loaded labels d1 d2 v1 v2 show ?thesis
    by (intro conjI)
qed

text \<open>
  The claim as stated asks for a column named \<^verbatim>\<open>Month\<close>. The table loaded from the small
  year has the eleven labels below, \<^verbatim>\<open>Month_Num\<close> among them and \<^verbatim>\<open>Month\<close> not.
\<close>

theorem column_named_Month_counterexample:
  "snd (load_data ex_parse ex_fs 2024) = Inr (Some ex_loaded)
   \<and> rows ex_loaded \<noteq> []
   \<and> columns ex_loaded = [''Date'', ''Primary Type'', ''Description'', ''Location Description'',
        ''Arrest'', ''District'', ''Latitude'', ''Longitude'', ''Month_Num'', ''Hour'',
        ''DayOfWeek'']
   \<and> ''Month'' \<notin> set (columns ex_loaded)"
  by (simp add: ex_load_data) (simp add: ex_loaded_def ex_columns_def)

section \<open>Properties of the filter engine\<close>

lemma and_mask_map: "and_mask (map f xs) (map g xs) = map (\<lambda>x. f x \<and> g x) xs"
  by (induction xs) (simp_all add: and_mask_def)

lemma boolean_index_map: "rows (boolean_index df (map P (rows df))) = filter P (rows df)"
proof -
  have "map fst (filter snd (zip xs (map P xs))) = filter P xs" for xs :: "'a list"
    by (induction xs) simp_all
  then show ?thesis by (simp add: boolean_index_def)
qed

lemma filter_mask_eq:
  "filter_mask df types districts arr =
     map (\<lambda>r. Primary_Type r \<in> set types
            \<and> (districts = [] \<or> District r \<in> Some ` set districts)
            \<and> (arr = ''Yes'' \<longrightarrow> Arrest r) \<and> (arr = ''No'' \<longrightarrow> \<not> Arrest r)) (rows df)"
  by (simp add: filter_mask_def Let_def isin_def eq_scalar_def and_mask_map comp_def)

lemma selected_options:
  assumes "arr \<in> set arrest_options"
  shows "selected types districts arr r \<longleftrightarrow>
           Primary_Type r \<in> set types
           \<and> (districts = [] \<or> District r \<in> Some ` set districts)
           \<and> (arr = ''Yes'' \<longrightarrow> Arrest r) \<and> (arr = ''No'' \<longrightarrow> \<not> Arrest r)"
  using assms by (auto simp: selected_def arrest_options_def)

lemma filtered_view_rows:
  assumes "arr \<in> set arrest_options"
  shows "rows (filtered_view df types districts arr) = filter (selected types districts arr) (rows df)"
proof -
  have "(\<lambda>r. Primary_Type r \<in> set types
            \<and> (districts = [] \<or> District r \<in> Some ` set districts)
            \<and> (arr = ''Yes'' \<longrightarrow> Arrest r) \<and> (arr = ''No'' \<longrightarrow> \<not> Arrest r))
        = selected types districts arr"
    using selected_options [OF assms] by (simp add: fun_eq_iff)
  then show ?thesis
    by (simp add: filtered_view_def filter_mask_eq boolean_index_map)
qed

lemma filtered_view_columns: "columns (filtered_view df types districts arr) = columns df"
  by (simp add: filtered_view_def boolean_index_def)

text \<open>
  C1. For every selection of types, districts and arrest status (one of the three
  options of the radio button), the filtered view holds, in the order of the table,
  exactly the rows of the loaded table whose Primary Type is selected, whose District
  is selected unless no district is selected, and whose Arrest field agrees with the
  choice: a row of the table is in the view if and only if it meets the condition.
\<close>

theorem filter_engine_selects:
  assumes "arr \<in> set arrest_options"
  shows "rows (filtered_view df types districts arr) = filter (selected types districts arr) (rows df)
         \<and> (\<forall>r \<in> set (rows df).
               r \<in> set (rows (filtered_view df types districts arr))
               \<longleftrightarrow> Primary_Type r \<in> set types
                   \<and> (districts = [] \<or> (\<exists>d \<in> set districts. District r = Some d))
                   \<and> (arr = ''All'' \<or> (arr = ''Yes'' \<and> Arrest r) \<or> (arr = ''No'' \<and> \<not> Arrest r)))"
  using filtered_view_rows [OF assms, of df types districts]
  by (simp add: selected_def)

theorem filter_engine_selects_witness:
  "''No'' \<in> set arrest_options
   \<and> rows (filtered_view ex_loaded [''THEFT'', ''BATTERY''] [11] ''No'') = [ex_row1]
   \<and> rows (filtered_view ex_loaded [''THEFT'', ''BATTERY''] [] ''Yes'') = [ex_row2]
   \<and> rows (filtered_view ex_loaded [''THEFT''] [] ''All'') = [ex_row1]"
proof -
  have opts: "''No'' \<in> set arrest_options" "''Yes'' \<in> set arrest_options"
    "''All'' \<in> set arrest_options"
    by (simp_all add: arrest_options_def)
  have sel: "selected [''THEFT'', ''BATTERY''] [11] ''No'' ex_row1"
    "\<not> selected [''THEFT'', ''BATTERY''] [11] ''No'' ex_row2"
    "\<not> selected [''THEFT'', ''BATTERY''] [] ''Yes'' ex_row1"
    "selected [''THEFT'', ''BATTERY''] [] ''Yes'' ex_row2"
    "selected [''THEFT''] [] ''All'' ex_row1"
    "\<not> selected [''THEFT''] [] ''All'' ex_row2"
    by (simp_all add: selected_def ex_row1_def ex_row2_def)
  have rows: "rows ex_loaded = [ex_row1, ex_row2]" by (simp add: ex_loaded_def)
  have 1: "rows (filtered_view ex_loaded [''THEFT'', ''BATTERY''] [11] ''No'') = [ex_row1]"
    unfolding filter_engine_selects [OF opts(1), of ex_loaded, THEN conjunct1] rows
    by (simp add: sel)
  have 2: "rows (filtered_view ex_loaded [''THEFT'', ''BATTERY''] [] ''Yes'') = [ex_row2]"
    unfolding filter_engine_selects [OF opts(2), of ex_loaded, THEN conjunct1] rows
    by (simp add: sel)
  have 3: "rows (filtered_view ex_loaded [''THEFT''] [] ''All'') = [ex_row1]"
    unfolding filter_engine_selects [OF opts(3), of ex_loaded, THEN conjunct1] rows
    by (simp add: sel)
  from opts(1) 1 2 3 show ?thesis by (intro conjI)
qed

subsection \<open>The source table is left as it is\<close>

lemma hand_out_table:
  assumes "hand_out v s1 = (Inr (Some a), s)"
  shows "\<exists>t. v = Some t \<and> a = length (objects s1) \<and> objects s = objects s1 @ [t]
           \<and> cache s = cache s1"
proof (cases v)
  case None
  with assms show ?thesis by (simp add: hand_out_def)
next
  case (Some t)
  with assms have "a = length (objects s1)" and "s = s1\<lparr>objects := objects s1 @ [t]\<rparr>"
    by (simp_all add: hand_out_def new_table_def)
  with Some show ?thesis by simp
qed

lemma cached_load_data_table:
  assumes "cached_load_data parse fs year s0 = (Inr (Some a), s)"
  shows "a < length (objects s) \<and> map_of (cache s) year = Some (Some (objects s ! a))"
proof (cases "map_of (cache s0) year")
  case (Some v)
  with assms have "hand_out v s0 = (Inr (Some a), s)"
    by (simp add: cached_load_data_def)
  from hand_out_table [OF this] Some show ?thesis
    by (auto simp: nth_append)
next
  case None
  show ?thesis
  proof (cases "snd (load_data parse fs year)")
    case (Inl e)
    with None assms show ?thesis by (simp add: cached_load_data_def)
  next
    case (Inr v)
    with None assms have "hand_out v (s0\<lparr>cache := (year, v) # cache s0\<rparr>) = (Inr (Some a), s)"
      by (simp add: cached_load_data_def)
    from hand_out_table [OF this] show ?thesis
      by (auto simp: nth_append)
  qed
qed

lemma filter_engine_objects:
  assumes "filter_engine s a types districts arr = (s', b)"
  shows "objects s' = objects s @ [filtered_view (objects s ! a) types districts arr]
         \<and> b = length (objects s) \<and> cache s' = cache s
         \<and> app_mode s' = app_mode s \<and> selected_year s' = selected_year s"
proof -
  from assms have "s' = s\<lparr>objects := objects s @ [filtered_view (objects s ! a) types districts arr]\<rparr>"
    and "b = length (objects s)"
    by (simp_all add: filter_engine_def new_table_def)
  then show ?thesis by simp
qed

text \<open>
  C6. For every selection of filters, producing the filtered view leaves the table
  that \<open>load_data\<close> returned as it was: the object of \<open>df\<close> is the same table before and
  after (every row, every column, the row count), the filtered view is another
  object, and the memo table of the cached loader is unchanged and still holds that
  table for the year.
\<close>

theorem filter_engine_frame:
  assumes "cached_load_data parse fs year s0 = (Inr (Some a), s)"
    and "filter_engine s a types districts arr = (s', b)"
  shows "objects s' ! a = objects s ! a
         \<and> rows (objects s' ! a) = rows (objects s ! a)
         \<and> columns (objects s' ! a) = columns (objects s ! a)
         \<and> len (objects s' ! a) = len (objects s ! a)
         \<and> b \<noteq> a
         \<and> (\<forall>x < length (objects s). objects s' ! x = objects s ! x)
         \<and> cache s' = cache s
         \<and> map_of (cache s') year = Some (Some (objects s' ! a))"
proof -
  from cached_load_data_table [OF assms(1)]
  have a: "a < length (objects s)" and c: "map_of (cache s) year = Some (Some (objects s ! a))"
    by simp_all
  from filter_engine_objects [OF assms(2)]
  have o: "objects s' = objects s @ [filtered_view (objects s ! a) types districts arr]"
    and b: "b = length (objects s)" and k: "cache s' = cache s"
    by simp_all
  have same: "objects s' ! x = objects s ! x" if "x < length (objects s)" for x
    using that by (simp add: o nth_append)
  from a b have "b \<noteq> a" by simp
  with same [OF a] same k c show ?thesis by simp
qed

lemma ex_cached_load:
  "cached_load_data ex_parse ex_fs 2024 ex_state = (Inr (Some 0), ex_state1)"
  by (simp add: cached_load_data_def hand_out_def new_table_def ex_load_data ex_state_def
      ex_state1_def)

theorem filter_engine_frame_witness:
  "cached_load_data ex_parse ex_fs 2024 ex_state = (Inr (Some 0), ex_state1)
   \<and> objects ex_state1 ! 0 = ex_loaded
   \<and> snd (filter_engine ex_state1 0 [''THEFT''] [] ''All'') = 1
   \<and> objects (fst (filter_engine ex_state1 0 [''THEFT''] [] ''All'')) ! 0 = ex_loaded
   \<and> map_of (cache (fst (filter_engine ex_state1 0 [''THEFT''] [] ''All''))) 2024
       = Some (Some ex_loaded)"
proof -
  define r where "r = filter_engine ex_state1 0 [''THEFT''] [] ''All''"
  have run: "filter_engine ex_state1 0 [''THEFT''] [] ''All'' = (fst r, snd r)"
    by (simp add: r_def)
  note frame = filter_engine_frame [OF ex_cached_load run]
  have 2: "objects ex_state1 ! 0 = ex_loaded"
    by (simp add: ex_state1_def)
  have 3: "objects (fst r) ! 0 = ex_loaded"
    using frame [THEN conjunct1] 2 by (rule trans)
  have "map_of (cache (fst r)) 2024 = Some (Some (objects (fst r) ! 0))"
    using frame by (elim conjE)
  then have 4: "map_of (cache (fst r)) 2024 = Some (Some ex_loaded)"
    unfolding 3 .
  have 5: "snd r = 1"
    by (simp add: r_def filter_engine_def new_table_def ex_state1_def)
  from ex_cached_load 2 5 3 4 show ?thesis
    unfolding r_def by (intro conjI)
qed

section \<open>The map layer and its sample (lines 206-211)\<close>













section \<open>The table of the heatmap (lines 253-261)\<close>

lemma groupby_size_keys: "map fst (groupby_size ks) = sort (remdups ks)"
  by (simp add: groupby_size_def o_def)

lemma groupby_size_key_set: "fst ` set (groupby_size ks) = set ks"
proof -
  have "fst ` set (groupby_size ks) = set (map fst (groupby_size ks))" by simp
  also have "\<dots> = set ks" by (simp only: groupby_size_keys set_sort set_remdups)
  finally show ?thesis .
qed

lemma groupby_size_mem:
  "(k, c) \<in> set (groupby_size ks) \<longleftrightarrow> k \<in> set ks \<and> c = count_list ks k"
  by (auto simp add: groupby_size_def)

lemma map_of_groupby_size:
  "map_of (groupby_size ks) k = (if k \<in> set ks then Some (count_list ks k) else None)"
  by (simp add: groupby_size_def map_of_map_restrict restrict_map_def)

lemma reindex_keys: "map fst (reindex t idx) = idx"
  by (simp add: reindex_def o_def)

lemma map_of_reindex:
  "k \<in> set idx \<Longrightarrow> map_of (reindex t idx) k = Some (case map_of t k of None \<Rightarrow> 0 | Some c \<Rightarrow> c)"
  by (simp add: reindex_def map_of_map_restrict restrict_map_def)

lemma length_full_idx: "length full_idx = 168"
  by (simp add: full_idx_def days_def)

lemma distinct_full_idx: "distinct full_idx"
proof -
  have "distinct days" by (simp add: days_def)
  thus ?thesis unfolding full_idx_def by (rule distinct_product) simp
qed

lemma heat_absent:
  assumes "k \<in> set full_idx" and "k \<notin> fst ` set (grouped fdf)"
  shows "map_of (heat fdf) k = Some 0"
proof -
  have "fst ` set (grouped fdf) = set (map (\<lambda>r. (DayOfWeek r, Hour r)) (rows fdf))"
    unfolding grouped_def by (rule groupby_size_key_set)
  from this assms(2) have "k \<notin> set (map (\<lambda>r. (DayOfWeek r, Hour r)) (rows fdf))"
    by (rule subst)
  hence "map_of (grouped fdf) k = None"
    unfolding grouped_def map_of_groupby_size by (rule if_not_P)
  with map_of_reindex [OF assms(1), of "grouped fdf"] show ?thesis
    by (simp add: heat_def)
qed

lemma heat_present:
  assumes "k \<in> set full_idx" and "(k, c) \<in> set (grouped fdf)"
  shows "map_of (heat fdf) k = Some c"
proof -
  from assms(2) have "k \<in> set (map (\<lambda>r. (DayOfWeek r, Hour r)) (rows fdf))
      \<and> c = count_list (map (\<lambda>r. (DayOfWeek r, Hour r)) (rows fdf)) k"
    unfolding grouped_def by (rule groupby_size_mem [THEN iffD1])
  hence "map_of (grouped fdf) k = Some c"
    unfolding grouped_def map_of_groupby_size by simp
  with map_of_reindex [OF assms(1), of "grouped fdf"] show ?thesis
    by (simp add: heat_def)
qed

lemma ex_loaded_nonempty: "\<not> df_empty ex_loaded"
  by (simp add: df_empty_def ex_loaded_def ex_columns_def)

lemma ex_loaded_keys:
  "map (\<lambda>r. (DayOfWeek r, Hour r)) (rows ex_loaded) = [(''Monday'', 14), (''Saturday'', 23)]"
  by (simp add: ex_loaded_def ex_row1_def ex_row2_def)

text \<open>
  Claim C9. For a view that is not empty the heatmap is drawn from a table of exactly
  168 rows, whose keys are the pairs of the seven names of the days, Monday to
  Sunday, with the hours 0 to 23, each pair once and in this order. A pair that the
  grouped counts do not hold has the count 0, and a pair that they hold keeps its
  count, which is the number of rows of the view of this day and hour.
\<close>

theorem heat_table:
  assumes "\<not> df_empty fdf"
  shows "heat_block fdf = ([Heatmap (heat fdf)], Completed)
    \<and> length (heat fdf) = 168
    \<and> map fst (heat fdf) = List.product days [0..23]
    \<and> distinct (map fst (heat fdf))
    \<and> set (map fst (heat fdf)) = set days \<times> {0..23}
    \<and> days = [''Monday'', ''Tuesday'', ''Wednesday'', ''Thursday'', ''Friday'', ''Saturday'',
               ''Sunday'']
    \<and> (\<forall>k \<in> set (List.product days [0..23]).
          (k \<notin> fst ` set (grouped fdf) \<longrightarrow> map_of (heat fdf) k = Some 0)
        \<and> (\<forall>c. (k, c) \<in> set (grouped fdf) \<longrightarrow> map_of (heat fdf) k = Some c))
    \<and> (\<forall>k c. (k, c) \<in> set (grouped fdf) \<longleftrightarrow>
          (\<exists>r \<in> set (rows fdf). k = (DayOfWeek r, Hour r))
          \<and> c = length (filter (\<lambda>r. (DayOfWeek r, Hour r) = k) (rows fdf)))"
proof -
  have b: "heat_block fdf = ([Heatmap (heat fdf)], Completed)"
    using assms by (simp add: heat_block_def)
  have k: "map fst (heat fdf) = List.product days [0..23]"
    by (simp only: heat_def reindex_keys full_idx_def)
  have l: "length (heat fdf) = 168"
  proof -
    have "length (heat fdf) = length (map fst (heat fdf))" by simp
    also have "\<dots> = length full_idx" by (simp only: k full_idx_def)
    finally show ?thesis by (simp only: length_full_idx)
  qed
  have d: "distinct (map fst (heat fdf))"
    using distinct_full_idx by (simp only: k full_idx_def)
  have s: "set (map fst (heat fdf)) = set days \<times> {0..23}"
    by (simp only: k set_product set_upto)
  have n: "days = [''Monday'', ''Tuesday'', ''Wednesday'', ''Thursday'', ''Friday'',
      ''Saturday'', ''Sunday'']"
    by (rule days_def)
  have f: "\<forall>k \<in> set (List.product days [0..23]).
          (k \<notin> fst ` set (grouped fdf) \<longrightarrow> map_of (heat fdf) k = Some 0)
        \<and> (\<forall>c. (k, c) \<in> set (grouped fdf) \<longrightarrow> map_of (heat fdf) k = Some c)"
    using heat_absent heat_present unfolding full_idx_def by blast
  have g: "\<forall>k c. (k, c) \<in> set (grouped fdf) \<longleftrightarrow>
          (\<exists>r \<in> set (rows fdf). k = (DayOfWeek r, Hour r))
          \<and> c = length (filter (\<lambda>r. (DayOfWeek r, Hour r) = k) (rows fdf))"
  proof (intro allI)
    fix k c
    have "count_list (map (\<lambda>r. (DayOfWeek r, Hour r)) (rows fdf)) k
        = length (filter (\<lambda>r. (DayOfWeek r, Hour r) = k) (rows fdf))"
      by (simp add: count_list_eq_length_filter filter_map o_def eq_commute)
    moreover have "k \<in> set (map (\<lambda>r. (DayOfWeek r, Hour r)) (rows fdf))
        \<longleftrightarrow> (\<exists>r \<in> set (rows fdf). k = (DayOfWeek r, Hour r))"
      by auto
    ultimately show "(k, c) \<in> set (grouped fdf) \<longleftrightarrow>
          (\<exists>r \<in> set (rows fdf). k = (DayOfWeek r, Hour r))
          \<and> c = length (filter (\<lambda>r. (DayOfWeek r, Hour r) = k) (rows fdf))"
      by (simp only: grouped_def groupby_size_mem)
  qed
  from b l k d s n f g show ?thesis by (intro conjI)
qed

theorem heat_table_witness:
  "\<not> df_empty ex_loaded
    \<and> heat_block ex_loaded = ([Heatmap (heat ex_loaded)], Completed)
    \<and> length (heat ex_loaded) = 168
    \<and> map_of (heat ex_loaded) (''Monday'', 14) = Some 1
    \<and> map_of (heat ex_loaded) (''Monday'', 15) = Some 0"
proof -
  note all = heat_table [OF ex_loaded_nonempty]
  have b: "heat_block ex_loaded = ([Heatmap (heat ex_loaded)], Completed)"
    by (rule all [THEN conjunct1])
  have l: "length (heat ex_loaded) = 168"
    by (rule all [THEN conjunct2, THEN conjunct1])
  note f = all [THEN conjunct2, THEN conjunct2, THEN conjunct2, THEN conjunct2, THEN conjunct2,
      THEN conjunct2, THEN conjunct1]
  have i1: "(''Monday'', 14) \<in> set (List.product days [0..23])"
    by (simp add: days_def)
  have i2: "(''Monday'', 15) \<in> set (List.product days [0..23])"
    by (simp add: days_def)
  have p: "((''Monday'', 14), 1) \<in> set (grouped ex_loaded)"
    by (simp add: grouped_def groupby_size_mem ex_loaded_keys)
  have a: "(''Monday'', 15) \<notin> fst ` set (grouped ex_loaded)"
    by (simp add: grouped_def groupby_size_key_set ex_loaded_keys)
  have m1: "map_of (heat ex_loaded) (''Monday'', 14) = Some 1"
    using f [THEN bspec, OF i1, THEN conjunct2, THEN spec, THEN mp, OF p] .
  have m0: "map_of (heat ex_loaded) (''Monday'', 15) = Some 0"
    using f [THEN bspec, OF i2, THEN conjunct1, THEN mp, OF a] .
  from ex_loaded_nonempty b l m1 m0 show ?thesis by (intro conjI)
qed

section \<open>The cards of the top location and the peak hour (lines 192-197)\<close>

lemma mode_eq_Nil: "mode xs = [] \<longleftrightarrow> xs = []"
proof
  assume m: "mode xs = []"
  show "xs = []"
  proof (rule ccontr)
    assume ne: "xs \<noteq> []"
    hence "count_list xs ` set xs \<noteq> {}" and "finite (count_list xs ` set xs)" by simp_all
    hence "Max (count_list xs ` set xs) \<in> count_list xs ` set xs" by (intro Max_in)
    then obtain v where v: "v \<in> set xs" "count_list xs v = Max (count_list xs ` set xs)"
      by auto
    hence "v \<in> set (filter (\<lambda>v. count_list xs v = Max (count_list xs ` set xs)) (remdups xs))"
      by simp
    hence "v \<in> set (mode xs)" using ne by (simp add: mode_def)
    with m show False by simp
  qed
next
  assume "xs = []"
  thus "mode xs = []" by (simp add: mode_def)
qed

lemma present_eq_Nil: "present xs = [] \<longleftrightarrow> (\<forall>x \<in> set xs. x = None)"
  by (induction xs rule: present.induct) simp_all

lemma mode0_KeyError: "mode0 xs = Inl KeyError \<longleftrightarrow> xs = []"
proof (cases "mode xs")
  case Nil
  thus ?thesis using mode_eq_Nil [of xs] by (simp add: mode0_def)
next
  case (Cons v vs)
  thus ?thesis using mode_eq_Nil [of xs] by (simp add: mode0_def)
qed

lemma mode0_cases: "mode0 xs = Inl KeyError \<or> (\<exists>v. mode0 xs = Inr v)"
  by (cases "mode xs") (simp_all add: mode0_def)

text \<open>An empty view gives the placeholder on both cards.\<close>

lemma empty_view_placeholders:
  "df_empty fdf \<Longrightarrow> top_location fdf = Inr ''N/A'' \<and> peak_hour fdf = Inr ''N/A''"
  by (simp add: top_location_def peak_hour_def)

text \<open>The peak hour of a view that is not empty is always found.\<close>

lemma peak_hour_total: "\<not> df_empty fdf \<Longrightarrow> \<exists>h. peak_hour fdf = Inr h"
proof -
  assume ne: "\<not> df_empty fdf"
  hence "map Hour (rows fdf) \<noteq> []" by (simp add: df_empty_def)
  hence "mode0 (map Hour (rows fdf)) \<noteq> Inl KeyError" by (simp add: mode0_KeyError)
  with mode0_cases [of "map Hour (rows fdf)"] obtain v where "mode0 (map Hour (rows fdf)) = Inr v"
    by blast
  with ne show ?thesis by (simp add: peak_hour_def)
qed

text \<open>
  The top location is looked up in an empty series exactly when the view is not
  empty and none of its rows has a location description.
\<close>

lemma top_location_KeyError_iff:
  "top_location fdf = Inl KeyError
    \<longleftrightarrow> \<not> df_empty fdf \<and> (\<forall>r \<in> set (rows fdf). Location_Description r = None)"
proof (cases "df_empty fdf")
  case True
  thus ?thesis by (simp add: top_location_def)
next
  case False
  hence "top_location fdf = Inl KeyError
      \<longleftrightarrow> present (map Location_Description (rows fdf)) = []"
    by (simp add: top_location_def mode0_KeyError)
  also have "\<dots> \<longleftrightarrow> (\<forall>r \<in> set (rows fdf). Location_Description r = None)"
    by (simp add: present_eq_Nil)
  finally show ?thesis using False by simp
qed

lemma ex_view_no_location: "filtered_view ex_loaded [''BATTERY''] [] ''All'' = ex_no_location"
  by (simp add: filtered_view_def boolean_index_def filter_mask_def isin_def ex_loaded_def
      ex_row1_def ex_row2_def ex_no_location_def Let_def)

lemma ex_no_location_nonempty: "\<not> df_empty ex_no_location"
  by (simp add: df_empty_def ex_no_location_def ex_columns_def)

lemma ex_no_location_present:
  "present (map Location_Description (rows ex_no_location)) = []"
  by (simp add: ex_no_location_def ex_row2_def)

text \<open>
  Claim C10. The year 2024 of the small archive, filtered to the type BATTERY with no
  district and every arrest status: the view has one row, so it is not empty, and this
  row has no location description. The series of locations has no mode, its label 0
  is looked up all the same, and the script stops with a \<^verbatim>\<open>KeyError\<close> after the first
  two cards; the cards of the top location and of the peak hour are never drawn.
\<close>

theorem top_location_KeyError:
  "snd (load_data ex_parse ex_fs 2024) = Inr (Some ex_loaded)
    \<and> filtered_view ex_loaded [''BATTERY''] [] ''All'' = ex_no_location
    \<and> \<not> df_empty ex_no_location
    \<and> mode (present (map Location_Description (rows ex_no_location))) = []
    \<and> top_location ex_no_location = Inl KeyError
    \<and> metric_cards ex_no_location =
        ([Metric_card ''Total Incidents'' (Thousands 1),
          Metric_card ''Arrest Rate'' (Percent (Some 100))], Raised KeyError)"
proof -
  have l: "snd (load_data ex_parse ex_fs 2024) = Inr (Some ex_loaded)"
    by (simp add: ex_load_data)
  have m: "mode (present (map Location_Description (rows ex_no_location))) = []"
    by (simp only: ex_no_location_present mode_eq_Nil)
  have t: "top_location ex_no_location = Inl KeyError"
    using ex_no_location_nonempty by (simp add: top_location_def mode0_def m)
  have a: "arrest_rate ex_no_location = Some 100"
    by (simp add: arrest_rate_def ex_no_location_def ex_row2_def)
  have n: "len ex_no_location = 1"
    by (simp add: len_def ex_no_location_def)
  have c: "metric_cards ex_no_location =
        ([Metric_card ''Total Incidents'' (Thousands 1),
          Metric_card ''Arrest Rate'' (Percent (Some 100))], Raised KeyError)"
    by (simp add: metric_cards_def t a n seq_def)
  from l ex_view_no_location ex_no_location_nonempty m t c show ?thesis by (intro conjI)
qed

section \<open>Missing coordinates (lines 189-197, 206-211, 239-261)\<close>










section \<open>The guard for missing data (lines 84-90, 146-164)\<close>

lemma str_int_2022: "str_int 2022 = ''2022''"
  by (simp add: str_int_def str_nat.simps digit_chr_def)

lemma ex_locate_empty:
  "locate ex_fs_empty 2022 = ([''./chicago_crime_2022.csv.zip''], Some ''./chicago_crime_2022.csv.zip'')"
  by (simp add: locate_def search_dirs_def possible_files_def str_int_2022 path_join_def
      startswith_def endswith_def exists_def ex_fs_empty_def Let_def)

lemma ex_read_archive_empty:
  "read_archive ex_parse ex_zip_empty = ([MemberOpen ''chicago_crime_2022.csv''], Inr (Some ex_empty))"
  by (simp add: read_archive_def ex_zip_empty_def startswith_def endswith_def read_csv_def
      ex_csv_empty_def cols_def derive_def setitem_label_def ex_empty_def ex_columns_def)

lemma ex_load_data_empty: "snd (load_data ex_parse ex_fs_empty 2022) = Inr (Some ex_empty)"
  by (simp add: load_data_def ex_locate_empty ex_read_archive_empty ex_fs_empty_def)

lemma ex_load_data_missing: "snd (load_data ex_parse (\<lambda>p. None) 2022) = Inr None"
  by (simp add: load_data_result locate_eq exists_def candidate_paths_def)

lemma ex_empty_is_empty: "df_empty ex_empty"
  by (simp add: df_empty_def ex_empty_def)

lemma ex_cached_load_empty:
  "cached_load_data ex_parse ex_fs_empty 2022 ex_state_2022
     = (Inr (Some 0), ex_state_2022\<lparr>cache := [(2022, Some ex_empty)], objects := [ex_empty]\<rparr>)"
  by (simp add: cached_load_data_def hand_out_def new_table_def ex_load_data_empty
      ex_state_2022_def)

lemma ex_cached_load_missing:
  "cached_load_data ex_parse (\<lambda>p. None) 2022 ex_state_2022
     = (Inr None, ex_state_2022\<lparr>cache := [(2022, None)]\<rparr>)"
  by (simp add: cached_load_data_def hand_out_def ex_load_data_missing ex_state_2022_def)

lemma ex_view_empty: "filtered_view ex_empty types districts arr = ex_empty"
  by (simp add: filtered_view_def boolean_index_def ex_empty_def)

lemma ex_filter_empty:
  "filter_engine (ex_state_2022\<lparr>cache := [(2022, Some ex_empty)], objects := [ex_empty]\<rparr>) 0
       [''THEFT''] [] ''All''
     = (ex_state_2022\<lparr>cache := [(2022, Some ex_empty)], objects := [ex_empty, ex_empty]\<rparr>, 1)"
  by (simp add: filter_engine_def new_table_def ex_view_empty)

lemma ex_metric_cards_empty:
  "metric_cards ex_empty =
     ([Metric_card ''Total Incidents'' (Thousands 0), Metric_card ''Arrest Rate'' (Percent None),
       Metric_card ''Top Location'' (Text ''N/A...''), Metric_card ''Peak Hour'' (Text ''N/A:00'')],
      Completed)"
  by (simp add: metric_cards_def top_location_def peak_hour_def arrest_rate_def len_def seq_def
      ex_empty_is_empty) (simp add: ex_empty_def)

lemma ex_render_empty:
  "render ex_ui ex_empty =
     ([Caption_filters 1 0,
       Metric_card ''Total Incidents'' (Thousands 0), Metric_card ''Arrest Rate'' (Percent None),
       Metric_card ''Top Location'' (Text ''N/A...''), Metric_card ''Peak Hour'' (Text ''N/A:00''),
       Warning_no_map, Info_no_heatmap], Completed)"
  by (simp add: render_def ex_metric_cards_empty map_block_def charts_block_def heat_block_def
      ex_empty_is_empty seq_def ex_ui_def) (simp add: len_def ex_empty_def)

text \<open>
  Claim C7. A run of the script stops at line 84 with a \<^verbatim>\<open>NameError\<close>, whatever the files,
  the session and the user's input: the guard reads \<^verbatim>\<open>df\<close>, which is bound nowhere at
  module level, so its message is never shown and no page runs. The dashboard page by
  itself (lines 133-293) does stop with its message when \<open>load_data\<close> returns \<open>None\<close>,
  here with no archive at all for 2022; but it tests nothing else, and with the
  archive whose CSV entry has no record it goes on with the empty table: it reports
  0 rows and draws the four metric cards, the notice of the map and the notice of
  the heatmap, and comes to its end without an error message.
\<close>

theorem guard_for_missing_data:
  "app parse fs u s = (([], Raised (NameError ''df'')), init_session s)
    \<and> snd (load_data ex_parse (\<lambda>p. None) 2022) = Inr None
    \<and> fst (dashboard ex_parse (\<lambda>p. None) ex_ui 2022 ex_state_2022)
        = ([Error_not_found 2022], Stopped)
    \<and> snd (load_data ex_parse ex_fs_empty 2022) = Inr (Some ex_empty)
    \<and> df_empty ex_empty
    \<and> fst (dashboard ex_parse ex_fs_empty ex_ui 2022 ex_state_2022)
        = ([Success_rows 0, Caption_filters 1 0,
            Metric_card ''Total Incidents'' (Thousands 0),
            Metric_card ''Arrest Rate'' (Percent None),
            Metric_card ''Top Location'' (Text ''N/A...''),
            Metric_card ''Peak Hour'' (Text ''N/A:00''),
            Warning_no_map, Info_no_heatmap], Completed)"
proof -
  have a: "app parse fs u s = (([], Raised (NameError ''df'')), init_session s)"
    by (simp add: app_def guard_def Let_def)
  have b: "\<not> back_home ex_ui" "sel_types ex_ui = [''THEFT'']" "sel_districts ex_ui = []"
    "arrest ex_ui = ''All''"
    by (simp_all add: ex_ui_def)
  have m: "fst (dashboard ex_parse (\<lambda>p. None) ex_ui 2022 ex_state_2022)
        = ([Error_not_found 2022], Stopped)"
    by (simp add: dashboard_def b ex_cached_load_missing)
  have e: "fst (dashboard ex_parse ex_fs_empty ex_ui 2022 ex_state_2022)
        = ([Success_rows 0, Caption_filters 1 0,
            Metric_card ''Total Incidents'' (Thousands 0),
            Metric_card ''Arrest Rate'' (Percent None),
            Metric_card ''Top Location'' (Text ''N/A...''),
            Metric_card ''Peak Hour'' (Text ''N/A:00''),
            Warning_no_map, Info_no_heatmap], Completed)"
    by (simp add: dashboard_def b ex_cached_load_empty ex_filter_empty ex_render_empty seq_def)
      (simp add: len_def ex_empty_def)
  from a ex_load_data_missing m ex_load_data_empty ex_empty_is_empty e show ?thesis
    by (intro conjI)
qed

end
